theory Spec2Isabelle
  imports Complex_Main "HOL-Library.Multiset"
begin

section \<open>Rows of the two tables\<close>

text \<open>
  The store has two tables (\<^verbatim>\<open>backend/supabase_schema.sql\<close>). A \<^verbatim>\<open>DATE\<close> is a
  calendar date; the store compares dates, and the code only builds the literals
  \<^verbatim>\<open>`${year}-${String(month).padStart(2, '0')}-01`\<close>. A date is modelled by its three
  numbers, compared year first, then month, then day; for the months 1..12 and a year
  of four digits the literal is the ISO form of the first day of the month, and this is
  the order of the dates.
\<close>

datatype date = Date (year_of: int) (month_of: int) (day_of: int)

fun date_less :: "date \<Rightarrow> date \<Rightarrow> bool" where
  "date_less (Date y1 m1 d1) (Date y2 m2 d2) =
     (y1 < y2 \<or> (y1 = y2 \<and> (m1 < m2 \<or> (m1 = m2 \<and> d1 < d2))))"

definition date_le :: "date \<Rightarrow> date \<Rightarrow> bool" where
  "date_le a b = (date_less a b \<or> a = b)"

text \<open>
  Amounts and budget limits are \<^verbatim>\<open>DECIMAL(15, 2)\<close> columns: the store holds exact
  decimal values, which are rationals. The code never computes with them as they are:
  it reads them through \<^verbatim>\<open>parseFloat\<close> into JavaScript numbers (see below).
  \<^verbatim>\<open>budget_limit\<close>, \<^verbatim>\<open>color\<close> and \<^verbatim>\<open>description\<close> are nullable columns: \<open>None\<close> is
  \<^verbatim>\<open>null\<close>. The two records share the column names \<^verbatim>\<open>id\<close>, \<^verbatim>\<open>type\<close> and
  \<^verbatim>\<open>created_at\<close>, so the fields carry the table as a prefix.
\<close>

record category =
  cat_id :: string
  cat_name :: string
  cat_type :: string
  cat_budget_limit :: "rat option"
  cat_color :: "string option"
  cat_created_at :: string

text \<open>
  A transaction, with the types of its amount and of its description left open: a row
  of the table has a decimal amount and a nullable description, the object
  \<^verbatim>\<open>getTransactions\<close> returns has a JavaScript number and a string.
\<close>

record ('a, 'd) transaction =
  tx_id :: string
  tx_type :: string
  tx_amount :: 'a
  tx_category_id :: string
  tx_description :: 'd
  tx_date :: date
  tx_created_at :: string

section \<open>The Supabase client\<close>

text \<open>
  The client library is not part of the repository. It is modelled by the two tables it
  reads and writes, the set of requests the store does not answer (a request in
  \<open>refused\<close> resolves to \<^verbatim>\<open>{ data: null, error, count: null }\<close>), and whether the store
  enforces the schema's \<^verbatim>\<open>ON DELETE RESTRICT\<close> on \<^verbatim>\<open>transactions.category_id\<close>.
\<close>

datatype request =
  Select_categories | Select_transactions | Count_transactions | Delete_categories

record supabase =
  categories :: "category list"
  transactions :: "(rat, string option) transaction list"
  refused :: "request set"
  on_delete_restrict :: bool

text \<open>What the code throws.\<close>

datatype error =
  HasDependents       \<comment> \<open>\<^verbatim>\<open>new Error('Cannot delete category with existing transactions')\<close>\<close>
  | CategoryNotFound  \<comment> \<open>\<^verbatim>\<open>new Error('Category not found')\<close>\<close>
  | RequestError      \<comment> \<open>the response's \<^verbatim>\<open>error\<close>, rethrown by \<^verbatim>\<open>if (error) throw error\<close>\<close>
  | TypeError         \<comment> \<open>a method call on \<^verbatim>\<open>null\<close>, as \<^verbatim>\<open>transactions.forEach\<close> on a null \<^verbatim>\<open>data\<close>\<close>

text \<open>
  \<^verbatim>\<open>supabase.from('categories').select('*')\<close> with the filters \<open>p\<close>: the \<^verbatim>\<open>data\<close> of
  the response. A column list such as \<^verbatim>\<open>select('type, amount, category_id')\<close> only drops
  the columns the caller does not read, so the rows are kept whole.
\<close>

definition select_categories :: "supabase \<Rightarrow> (category \<Rightarrow> bool) \<Rightarrow> category list option" where
  "select_categories sb p =
     (if Select_categories \<in> refused sb then None else Some (filter p (categories sb)))"

definition select_transactions ::
  "supabase \<Rightarrow> ((rat, string option) transaction \<Rightarrow> bool) \<Rightarrow> (rat, string option) transaction list option" where
  "select_transactions sb p =
     (if Select_transactions \<in> refused sb then None else Some (filter p (transactions sb)))"

section \<open>The Period of a month\<close>

definition startDate :: "int \<Rightarrow> int \<Rightarrow> date" where
  "startDate month year = Date year month 1"

definition endMonth :: "int \<Rightarrow> int" where
  "endMonth month = (if month = 12 then 1 else month + 1)"

definition endYear :: "int \<Rightarrow> int \<Rightarrow> int" where
  "endYear month year = (if month = 12 then year + 1 else year)"

definition endDate :: "int \<Rightarrow> int \<Rightarrow> date" where
  "endDate month year = Date (endYear month year) (endMonth month) 1"

text \<open>\<^verbatim>\<open>.gte('date', startDate).lt('date', endDate)\<close>\<close>

definition in_period :: "int \<Rightarrow> int \<Rightarrow> date \<Rightarrow> bool" where
  "in_period month year d =
     (date_le (startDate month year) d \<and> date_less d (endDate month year))"

section \<open>JavaScript numbers\<close>

text \<open>
  A number of the code is an IEEE 754 double. The amounts are decimals of at most 15
  digits, so no operation of the code overflows, and neither an infinity nor NaN arises
  from the arithmetic: the numbers are the finite doubles, which are rationals. (NaN
  does arise from \<^verbatim>\<open>parseFloat(null)\<close>; the code replaces it by 0 at once, see
  \<open>parseFloat_or_0\<close>.) The two zeros are not told apart: \<^verbatim>\<open>===\<close>, \<^verbatim>\<open>!x\<close>, the
  comparisons and the JSON form of a result do not distinguish them.

  \<open>binary64 x\<close> is the double nearest to the rational \<open>x\<close>, ties to the even
  significand: the significand has 53 bits, and the exponent is at least -1022 (below
  it the doubles are equally spaced). Every operation of the code returns the double
  nearest to the exact result.
\<close>

text \<open>The number of binary digits of a natural number.\<close>

fun bits :: "nat \<Rightarrow> nat" where
  "bits n = (if n = 0 then 0 else Suc (bits (n div 2)))"

declare bits.simps [simp del]

text \<open>The \<open>e\<close> with \<open>2 ^ e \<le> a < 2 ^ (e + 1)\<close>, for a positive \<open>a\<close>.\<close>

definition exponent :: "rat \<Rightarrow> int" where
  "exponent a =
     (if 1 \<le> a then int (bits (nat \<lfloor>a\<rfloor>)) - 1
      else - int (bits (nat \<lceil>1 / a\<rceil> - 1)))"

definition two_pow :: "int \<Rightarrow> rat" where
  "two_pow e = (if 0 \<le> e then 2 ^ nat e else 1 / 2 ^ nat (- e))"

definition round_half_even :: "rat \<Rightarrow> int" where
  "round_half_even q =
     (let n = \<lfloor>q\<rfloor>; r = q - of_int n
      in if r < 1 / 2 then n
         else if 1 / 2 < r then n + 1
         else if even n then n else n + 1)"

definition binary64 :: "rat \<Rightarrow> rat" where
  "binary64 x =
     (if x = 0 then 0
      else let a = \<bar>x\<bar>;
               ulp = two_pow (max (exponent a) (- 1022) - 52);
               n = round_half_even (a / ulp)
           in sgn x * of_int n * ulp)"

text \<open>
  The type of the numbers of the code, with the operators of the code: \<open>a + b\<close> on this
  type is JavaScript's \<^verbatim>\<open>a + b\<close>. The addition is not associative, so the type has
  no numerals and no \<open>sum_list\<close>; the number 100 is \<open>Double 100\<close>. The code divides
  only by a positive number.
\<close>

datatype double = Double (val: rat)

instantiation double :: "{zero, plus, minus, times, inverse}"
begin

definition zero_double :: double where
  "zero_double = Double 0"

definition plus_double :: "double \<Rightarrow> double \<Rightarrow> double" where
  "plus_double a b = Double (binary64 (val a + val b))"

definition minus_double :: "double \<Rightarrow> double \<Rightarrow> double" where
  "minus_double a b = Double (binary64 (val a - val b))"

definition times_double :: "double \<Rightarrow> double \<Rightarrow> double" where
  "times_double a b = Double (binary64 (val a * val b))"

definition divide_double :: "double \<Rightarrow> double \<Rightarrow> double" where
  "divide_double a b = Double (binary64 (val a / val b))"

definition inverse_double :: "double \<Rightarrow> double" where
  "inverse_double a = Double (binary64 (1 / val a))"

instance ..

end

instantiation double :: linorder
begin

definition less_eq_double :: "double \<Rightarrow> double \<Rightarrow> bool" where
  "less_eq_double a b = (val a \<le> val b)"

definition less_double :: "double \<Rightarrow> double \<Rightarrow> bool" where
  "less_double a b = (val a < val b)"

instance
  by standard (auto simp: less_eq_double_def less_double_def double.expand)

end

text \<open>
  \<^verbatim>\<open>parseFloat(x)\<close> on a value of a numeric column: the client delivers the decimal as a
  JSON number, which is read as the nearest double, and \<^verbatim>\<open>parseFloat\<close> of a number is
  that number.
\<close>

definition parseFloat :: "rat \<Rightarrow> double" where
  "parseFloat x = Double (binary64 x)"

section \<open>Objects used as maps from category ids to numbers\<close>

text \<open>
  \<^verbatim>\<open>categoryTotals\<close>, \<^verbatim>\<open>spendingMap\<close> and \<^verbatim>\<open>catMap\<close> are plain objects keyed by
  category ids. The ids are UUIDs (the \<^verbatim>\<open>id\<close> and \<^verbatim>\<open>category_id\<close> columns of the schema):
  such a key is neither the name of a property that every object inherits nor the
  decimal form of an array index, so reading a key that was never assigned gives
  \<^verbatim>\<open>undefined\<close>, and the own properties of an object are enumerated in the order they
  were first assigned. An object is the list of its properties in that order.
\<close>

type_synonym 'v obj = "(string \<times> 'v) list"

text \<open>\<^verbatim>\<open>o[k] = v\<close>\<close>

fun obj_set :: "string \<Rightarrow> 'v \<Rightarrow> 'v obj \<Rightarrow> 'v obj" where
  "obj_set k v [] = [(k, v)]"
| "obj_set k v (p # ps) = (if fst p = k then (k, v) # ps else p # obj_set k v ps)"

text \<open>\<^verbatim>\<open>o[k]\<close>, \<open>None\<close> for \<^verbatim>\<open>undefined\<close>\<close>

definition obj_get :: "'v obj \<Rightarrow> string \<Rightarrow> 'v option" where
  "obj_get ob k = map_of ob k"

text \<open>
  The grouping step of the three loops:
  \<^verbatim>\<open>if (!totals[k]) { totals[k] = 0 }; totals[k] += amount\<close>.
  \<^verbatim>\<open>!totals[k]\<close> holds when the property is missing and when it is 0.
\<close>

definition accumulate :: "string \<Rightarrow> double \<Rightarrow> double obj \<Rightarrow> double obj" where
  "accumulate k amount totals =
     (case obj_get totals k of
        None \<Rightarrow> obj_set k (0 + amount) (obj_set k 0 totals)
      | Some v \<Rightarrow>
          if v = 0 then obj_set k (0 + amount) (obj_set k 0 totals)
          else obj_set k (v + amount) totals)"

text \<open>
  \<^verbatim>\<open>parseFloat(x) || 0\<close> on a nullable numeric column: \<^verbatim>\<open>parseFloat(null)\<close> is NaN, and
  \<^verbatim>\<open>n || 0\<close> is 0 when \<open>n\<close> is NaN or 0.
\<close>

definition parseFloat_or_0 :: "rat option \<Rightarrow> double" where
  "parseFloat_or_0 x =
     (case x of None \<Rightarrow> 0 | Some v \<Rightarrow> if parseFloat v = 0 then 0 else parseFloat v)"

section \<open>getBudgetStatus\<close>

record budget_status =
  bs_category_id :: string
  bs_category_name :: string
  bs_budget_limit :: double
  spent :: double
  remaining :: double
  percentage :: double
  over_budget :: bool
  bs_color :: "string option"

text \<open>The body of \<^verbatim>\<open>categories.map(cat => ...)\<close>.\<close>

definition budget_entry :: "double obj \<Rightarrow> category \<Rightarrow> budget_status" where
  "budget_entry spendingMap cat =
     (let spent = (case obj_get spendingMap (cat_id cat) of
                     None \<Rightarrow> 0 | Some v \<Rightarrow> if v = 0 then 0 else v);
          budgetLimit = parseFloat_or_0 (cat_budget_limit cat);
          percentage = (if budgetLimit > 0 then (spent / budgetLimit) * Double 100 else 0)
      in \<lparr> bs_category_id = cat_id cat,
           bs_category_name = cat_name cat,
           bs_budget_limit = budgetLimit,
           spent = spent,
           remaining = max 0 (budgetLimit - spent),
           percentage = min percentage (Double 100),
           over_budget = (budgetLimit > 0 \<and> spent > budgetLimit),
           bs_color = cat_color cat \<rparr>)"

definition getBudgetStatus :: "supabase \<Rightarrow> int \<Rightarrow> int \<Rightarrow> error + budget_status list" where
  "getBudgetStatus sb month year =
     (let cats = select_categories sb (\<lambda>c. cat_type c = ''expense'');
          txs = select_transactions sb
                  (\<lambda>t. tx_type t = ''expense'' \<and> in_period month year (tx_date t))
      in case txs of
           None \<Rightarrow> Inl TypeError
         | Some txs \<Rightarrow>
             let spendingMap =
                   foldl (\<lambda>m tx. accumulate (tx_category_id tx) (parseFloat (tx_amount tx)) m) [] txs
             in (case cats of
                   None \<Rightarrow> Inl TypeError
                 | Some cats \<Rightarrow> Inr (map (budget_entry spendingMap) cats)))"

section \<open>getMonthlySummary\<close>

record breakdown_entry =
  be_category_id :: string
  category_name :: string
  be_type :: string
  total :: double
  be_budget_limit :: double
  be_color :: string

record monthly_summary =
  ms_month :: int
  ms_year :: int
  total_income :: double
  total_expenses :: double
  total_investments :: double
  balance :: double
  category_breakdown :: "breakdown_entry list"

text \<open>
  The variables the loop \<^verbatim>\<open>transactions.forEach(tx => ...)\<close> updates. \<^verbatim>\<open>amount\<close> is a
  \<^verbatim>\<open>NOT NULL\<close> column, so \<^verbatim>\<open>parseFloat(tx.amount)\<close> is a number.
\<close>

record totals =
  totalIncome :: double
  totalExpenses :: double
  totalInvestments :: double
  categoryTotals :: "double obj"

text \<open>One round of that loop.\<close>

definition tally :: "totals \<Rightarrow> (rat, 'd) transaction \<Rightarrow> totals" where
  "tally s tx =
     (let amount = parseFloat (tx_amount tx);
          s1 = (if tx_type tx = ''income'' then s\<lparr>totalIncome := totalIncome s + amount\<rparr>
                else if tx_type tx = ''investment''
                  then s\<lparr>totalInvestments := totalInvestments s + amount\<rparr>
                else s\<lparr>totalExpenses := totalExpenses s + amount\<rparr>)
      in s1\<lparr>categoryTotals := accumulate (tx_category_id tx) amount (categoryTotals s1)\<rparr>)"

text \<open>\<^verbatim>\<open>categories.forEach(cat => { catMap[cat.id] = cat })\<close>\<close>

definition catMap_of :: "category list \<Rightarrow> category obj" where
  "catMap_of cats = foldl (\<lambda>m cat. obj_set (cat_id cat) cat m) [] cats"

text \<open>
  The body of \<^verbatim>\<open>Object.entries(categoryTotals).map(([catId, total]) => ...)\<close>.
  \<^verbatim>\<open>catMap[catId] || {}\<close> is the empty object when the id is not a key, and every field
  of the empty object is \<^verbatim>\<open>undefined\<close>; \<^verbatim>\<open>x || d\<close> is \<open>d\<close> also when \<open>x\<close> is the empty
  string.
\<close>

definition breakdown_entry_of :: "category obj \<Rightarrow> string \<times> double \<Rightarrow> breakdown_entry" where
  "breakdown_entry_of catMap e =
     (let catId = fst e; total = snd e; cat = obj_get catMap catId
      in \<lparr> be_category_id = catId,
           category_name =
             (case cat of None \<Rightarrow> ''Unknown''
              | Some c \<Rightarrow> if cat_name c = [] then ''Unknown'' else cat_name c),
           be_type =
             (case cat of None \<Rightarrow> ''expense''
              | Some c \<Rightarrow> if cat_type c = [] then ''expense'' else cat_type c),
           total = total,
           be_budget_limit =
             parseFloat_or_0 (case cat of None \<Rightarrow> None | Some c \<Rightarrow> cat_budget_limit c),
           be_color =
             (case cat of None \<Rightarrow> ''#3D405B''
              | Some c \<Rightarrow>
                  (case cat_color c of None \<Rightarrow> ''#3D405B''
                   | Some col \<Rightarrow> if col = [] then ''#3D405B'' else col)) \<rparr>)"

definition getMonthlySummary :: "supabase \<Rightarrow> int \<Rightarrow> int \<Rightarrow> error + monthly_summary" where
  "getMonthlySummary sb month year =
     (let txs = select_transactions sb (\<lambda>t. in_period month year (tx_date t));
          cats = select_categories sb (\<lambda>c. True)
      in case cats of
           None \<Rightarrow> Inl TypeError
         | Some cats \<Rightarrow>
             let catMap = catMap_of cats in
             (case txs of
                None \<Rightarrow> Inl TypeError
              | Some txs \<Rightarrow>
                  let s = foldl tally
                            \<lparr> totalIncome = 0, totalExpenses = 0, totalInvestments = 0,
                              categoryTotals = [] \<rparr> txs;
                      categoryBreakdown = map (breakdown_entry_of catMap) (categoryTotals s)
                  in Inr \<lparr> ms_month = month,
                           ms_year = year,
                           total_income = totalIncome s,
                           total_expenses = totalExpenses s,
                           total_investments = totalInvestments s,
                           balance = totalIncome s - totalExpenses s,
                           category_breakdown = categoryBreakdown \<rparr>))"

section \<open>getYearlySummary\<close>

record monthly_entry =
  month :: int
  income :: double
  expenses :: double
  investments :: double
  month_balance :: double

record yearly_summary =
  ys_year :: int
  monthly_data :: "monthly_entry list"
  yearly_total_income :: double
  yearly_total_expenses :: double
  yearly_total_investments :: double

text \<open>The variables of the inner loop, and one round of it.\<close>

record month_totals =
  mt_income :: double
  mt_expenses :: double
  mt_investments :: double

definition month_tally :: "month_totals \<Rightarrow> (rat, 'd) transaction \<Rightarrow> month_totals" where
  "month_tally s tx =
     (let amount = parseFloat (tx_amount tx)
      in if tx_type tx = ''income'' then s\<lparr>mt_income := mt_income s + amount\<rparr>
         else if tx_type tx = ''investment''
           then s\<lparr>mt_investments := mt_investments s + amount\<rparr>
         else s\<lparr>mt_expenses := mt_expenses s + amount\<rparr>)"

text \<open>
  \<^verbatim>\<open>for (let month = 1; month <= 12; month++) { ...; monthlyData.push({...}) }\<close>, from
  the value \<open>m\<close> of the loop variable on. A month whose request is not answered has a
  null \<^verbatim>\<open>transactions\<close>, and \<^verbatim>\<open>transactions.forEach\<close> throws.
\<close>

function months_loop ::
  "supabase \<Rightarrow> int \<Rightarrow> int \<Rightarrow> monthly_entry list \<Rightarrow> error + monthly_entry list" where
  "months_loop sb year m monthlyData =
     (if m \<le> 12 then
        (case select_transactions sb (\<lambda>t. in_period m year (tx_date t)) of
           None \<Rightarrow> Inl TypeError
         | Some txs \<Rightarrow>
             let s = foldl month_tally
                       \<lparr> mt_income = 0, mt_expenses = 0, mt_investments = 0 \<rparr> txs
             in months_loop sb year (m + 1)
                  (monthlyData @
                     [\<lparr> month = m,
                        income = mt_income s,
                        expenses = mt_expenses s,
                        investments = mt_investments s,
                        month_balance = mt_income s - mt_expenses s \<rparr>]))
      else Inr monthlyData)"
  by pat_completeness auto
termination
  by (relation "measure (\<lambda>(sb, year, m, monthlyData). nat (13 - m))") auto

declare months_loop.simps [simp del]

definition getYearlySummary :: "supabase \<Rightarrow> int \<Rightarrow> error + yearly_summary" where
  "getYearlySummary sb year =
     (case months_loop sb year 1 [] of
        Inl e \<Rightarrow> Inl e
      | Inr monthlyData \<Rightarrow>
          Inr \<lparr> ys_year = year,
                monthly_data = monthlyData,
                yearly_total_income = foldl (\<lambda>sum m. sum + income m) 0 monthlyData,
                yearly_total_expenses = foldl (\<lambda>sum m. sum + expenses m) 0 monthlyData,
                yearly_total_investments =
                  foldl (\<lambda>sum m. sum + (if investments m = 0 then 0 else investments m))
                    0 monthlyData \<rparr>)"

section \<open>getTransactions\<close>

text \<open>
  \<^verbatim>\<open>.order('date', { ascending: false })\<close>: the store sorts the rows that pass the
  filters by date, latest first. Rows of one date are kept in the order of the table
  (the store promises no order among them).
\<close>

fun insert_desc :: "('a, 'd) transaction \<Rightarrow> ('a, 'd) transaction list \<Rightarrow> ('a, 'd) transaction list" where
  "insert_desc t [] = [t]"
| "insert_desc t (u # us) =
     (if date_le (tx_date u) (tx_date t) then t # u # us else u # insert_desc t us)"

definition order_date_desc :: "('a, 'd) transaction list \<Rightarrow> ('a, 'd) transaction list" where
  "order_date_desc rows = foldr insert_desc rows []"

text \<open>
  \<^verbatim>\<open>supabase.from('transactions').select('*').order('date', { ascending: false }).limit(n)\<close>
  with the filters \<open>p\<close>: the filters select, then the order, then the limit.
\<close>

definition select_transactions_ordered ::
  "supabase \<Rightarrow> nat \<Rightarrow> ((rat, string option) transaction \<Rightarrow> bool)
     \<Rightarrow> (rat, string option) transaction list option" where
  "select_transactions_ordered sb n p =
     (if Select_transactions \<in> refused sb then None
      else Some (take n (order_date_desc (filter p (transactions sb)))))"

text \<open>The argument \<^verbatim>\<open>{ month, year, type, category_id } = {}\<close>; \<open>None\<close> is a missing field.\<close>

record tx_filter =
  filter_month :: "int option"
  filter_year :: "int option"
  filter_type :: "string option"
  filter_category_id :: "string option"

text \<open>
  The object built by \<^verbatim>\<open>data.map(tx => ({...}))\<close>: \<^verbatim>\<open>parseFloat(tx.amount)\<close> and
  \<^verbatim>\<open>tx.description || ''\<close>.
\<close>

definition to_transaction :: "(rat, string option) transaction \<Rightarrow> (double, string) transaction" where
  "to_transaction tx =
     \<lparr> tx_id = tx_id tx,
       tx_type = tx_type tx,
       tx_amount = parseFloat (tx_amount tx),
       tx_category_id = tx_category_id tx,
       tx_description = (case tx_description tx of None \<Rightarrow> [] | Some d \<Rightarrow> d),
       tx_date = tx_date tx,
       tx_created_at = tx_created_at tx \<rparr>"

text \<open>
  The filters the three \<^verbatim>\<open>if\<close>s add to the query. \<^verbatim>\<open>month && year\<close> holds when both
  are given and neither is 0; \<^verbatim>\<open>if (type)\<close> when the string is given and not empty.
\<close>

definition period_filter :: "tx_filter \<Rightarrow> ('a, 'd) transaction \<Rightarrow> bool" where
  "period_filter f t =
     (case filter_month f of
        None \<Rightarrow> True
      | Some m \<Rightarrow>
          (case filter_year f of
             None \<Rightarrow> True
           | Some y \<Rightarrow>
               if m \<noteq> 0 \<and> y \<noteq> 0 then in_period m y (tx_date t) else True))"

definition type_filter :: "tx_filter \<Rightarrow> ('a, 'd) transaction \<Rightarrow> bool" where
  "type_filter f t =
     (case filter_type f of
        None \<Rightarrow> True
      | Some type \<Rightarrow> if type \<noteq> [] then tx_type t = type else True)"

definition category_filter :: "tx_filter \<Rightarrow> ('a, 'd) transaction \<Rightarrow> bool" where
  "category_filter f t =
     (case filter_category_id f of
        None \<Rightarrow> True
      | Some category_id \<Rightarrow>
          if category_id \<noteq> [] then tx_category_id t = category_id else True)"

definition getTransactions :: "supabase \<Rightarrow> tx_filter \<Rightarrow> error + (double, string) transaction list" where
  "getTransactions sb f =
     (case select_transactions_ordered sb 1000
             (\<lambda>t. period_filter f t \<and> type_filter f t \<and> category_filter f t) of
        None \<Rightarrow> Inl RequestError
      | Some data \<Rightarrow> Inr (map to_transaction data))"

section \<open>deleteCategory\<close>

text \<open>
  \<^verbatim>\<open>.select('*', { count: 'exact', head: true }).eq('category_id', id)\<close>: the \<^verbatim>\<open>count\<close>
  of the response, \<open>None\<close> for \<^verbatim>\<open>null\<close>.
\<close>

definition count_transactions :: "supabase \<Rightarrow> string \<Rightarrow> nat option" where
  "count_transactions sb cid =
     (if Count_transactions \<in> refused sb then None
      else Some (length (filter (\<lambda>t. tx_category_id t = cid) (transactions sb))))"

text \<open>
  \<^verbatim>\<open>supabase.from('categories').delete().eq('id', id)\<close>: whether the response carries an
  \<^verbatim>\<open>error\<close>, and the store afterwards. A store that enforces the foreign key refuses to
  delete a category row that a transaction references.
\<close>

definition delete_categories :: "supabase \<Rightarrow> string \<Rightarrow> bool \<times> supabase" where
  "delete_categories sb cid =
     (if Delete_categories \<in> refused sb
         \<or> (on_delete_restrict sb
             \<and> filter (\<lambda>c. cat_id c = cid) (categories sb) \<noteq> []
             \<and> filter (\<lambda>t. tx_category_id t = cid) (transactions sb) \<noteq> [])
      then (True, sb)
      else (False, sb\<lparr>categories := filter (\<lambda>c. cat_id c \<noteq> cid) (categories sb)\<rparr>))"

text \<open>\<^verbatim>\<open>count > 0\<close> is false when \<^verbatim>\<open>count\<close> is \<^verbatim>\<open>null\<close>.\<close>

definition deleteCategory :: "supabase \<Rightarrow> string \<Rightarrow> (error + unit) \<times> supabase" where
  "deleteCategory sb cid =
     (let count = count_transactions sb cid
      in if (case count of None \<Rightarrow> False | Some n \<Rightarrow> n > 0)
         then (Inl HasDependents, sb)
         else (case delete_categories sb cid of
                 (error, sb') \<Rightarrow> if error then (Inl RequestError, sb') else (Inr (), sb')))"

section \<open>The notions the properties are stated with\<close>

text \<open>
  The store that holds the given rows and answers every request: here the results are
  functions of the category list and the transaction list.
\<close>

definition store ::
  "category list \<Rightarrow> (rat, string option) transaction list \<Rightarrow> bool \<Rightarrow> supabase" where
  "store cats txs r =
     \<lparr> categories = cats, transactions = txs, refused = {}, on_delete_restrict = r \<rparr>"

text \<open>
  The sum of a list of numbers as the code computes it: the numbers are added one after
  the other, from the first to the last, to a total that starts at 0, each addition
  rounded to a double. It is the exact sum when no addition rounds.
\<close>

definition js_sum :: "double list \<Rightarrow> double" where
  "js_sum ns = foldl (+) 0 ns"

text \<open>The amounts of a list of rows as the code reads them, in the order of the rows.\<close>

definition amounts :: "(rat, 'd) transaction list \<Rightarrow> double list" where
  "amounts txs = map (\<lambda>t. parseFloat (tx_amount t)) txs"

text \<open>The number an object holds for a key, 0 when the key is missing.\<close>

definition obj_total :: "double obj \<Rightarrow> string \<Rightarrow> double" where
  "obj_total ob k = (case obj_get ob k of None \<Rightarrow> 0 | Some v \<Rightarrow> v)"

text \<open>
  The entry of a category in the words of the specification, with the sum and the
  formulas read in the arithmetic of the code: the amounts of the expense transactions
  of the category in the Period are added in the order of the rows, and the derived
  fields are computed from that sum and the budget limit.
\<close>

definition computed_budget_entry ::
  "(rat, string option) transaction list \<Rightarrow> int \<Rightarrow> int \<Rightarrow> category \<Rightarrow> budget_status" where
  "computed_budget_entry txs m y cat =
     (let budget_limit = parseFloat_or_0 (cat_budget_limit cat);
          sum = js_sum (amounts (filter (\<lambda>t. tx_type t = ''expense'' \<and>
                  tx_category_id t = cat_id cat \<and> in_period m y (tx_date t)) txs))
      in \<lparr> bs_category_id = cat_id cat,
           bs_category_name = cat_name cat,
           bs_budget_limit = budget_limit,
           spent = sum,
           remaining = max 0 (budget_limit - sum),
           percentage =
             (if budget_limit > 0 then min (Double 100) (sum / budget_limit * Double 100)
              else 0),
           over_budget = (budget_limit > 0 \<and> sum > budget_limit),
           bs_color = cat_color cat \<rparr>)"

text \<open>
  The total of a category in the breakdown: the amounts of the transactions of the
  category in the Period, added in the order of the rows.
\<close>

definition category_total :: "(rat, 'd) transaction list \<Rightarrow> int \<Rightarrow> int \<Rightarrow> string \<Rightarrow> double" where
  "category_total txs m y k =
     js_sum (amounts
       (filter (\<lambda>t. in_period m y (tx_date t) \<and> tx_category_id t = k) txs))"

text \<open>
  The entry of a month: the partition rule of the monthly summary, restricted to the
  Period of the month, each class added in the order of the rows.
\<close>

definition computed_month_entry :: "(rat, 'd) transaction list \<Rightarrow> int \<Rightarrow> int \<Rightarrow> monthly_entry" where
  "computed_month_entry txs y m =
     (let inc = js_sum (amounts
                  (filter (\<lambda>t. in_period m y (tx_date t) \<and> tx_type t = ''income'') txs));
          exp = js_sum (amounts
                  (filter (\<lambda>t. in_period m y (tx_date t) \<and> tx_type t \<noteq> ''income''
                               \<and> tx_type t \<noteq> ''investment'') txs));
          inv = js_sum (amounts
                  (filter (\<lambda>t. in_period m y (tx_date t) \<and> tx_type t = ''investment'') txs))
      in \<lparr> month = m, income = inc, expenses = exp, investments = inv,
           month_balance = inc - exp \<rparr>)"

text \<open>A list of transactions ordered by date descending: no row is before a later one.\<close>

definition by_date_desc :: "('a, 'd) transaction list \<Rightarrow> bool" where
  "by_date_desc rows = sorted_wrt (\<lambda>a b. date_le (tx_date b) (tx_date a)) rows"

section \<open>Rows for the examples\<close>

definition food :: category where
  "food = \<lparr> cat_id = ''c1'', cat_name = ''Food'', cat_type = ''expense'',
            cat_budget_limit = Some 100, cat_color = Some ''#E07A5F'',
            cat_created_at = ''2025-01-01'' \<rparr>"

text \<open>A category with a budget limit of 0.30.\<close>

definition snacks :: category where
  "snacks = \<lparr> cat_id = ''c1'', cat_name = ''Snacks'', cat_type = ''expense'',
              cat_budget_limit = Some (3 / 10), cat_color = Some ''#E07A5F'',
              cat_created_at = ''2025-01-01'' \<rparr>"

definition tx ::
  "string \<Rightarrow> string \<Rightarrow> rat \<Rightarrow> string \<Rightarrow> date \<Rightarrow> (rat, string option) transaction" where
  "tx i ty a c d = \<lparr> tx_id = i, tx_type = ty, tx_amount = a, tx_category_id = c,
      tx_description = None, tx_date = d, tx_created_at = ''2025-06-30'' \<rparr>"

section \<open>Evaluation of the arithmetic\<close>

lemma bits_numeral [simp]:
  "bits 0 = 0"
  "bits 1 = 1"
  "bits (Suc 0) = 1"
  "bits (numeral (Num.Bit0 k)) = Suc (bits (numeral k))"
  "bits (numeral (Num.Bit1 k)) = Suc (bits (numeral k))"
  by (subst bits.simps, simp)+

lemma floor_numeral_div [simp]:
  "\<lfloor>numeral a / numeral b :: rat\<rfloor> = numeral a div numeral b"
  using floor_divide_of_int_eq [of "numeral a" "numeral b", where ?'a = rat] by simp

lemma ceiling_numeral_div [simp]:
  "\<lceil>numeral a / numeral b :: rat\<rceil> = - ((- numeral a) div numeral b)"
  using floor_divide_of_int_eq [of "- numeral a" "numeral b", where ?'a = rat]
  by (simp add: ceiling_def)

lemmas binary64_eval = binary64_def exponent_def two_pow_def round_half_even_def Let_def

text \<open>The operators on numbers that are given by their values.\<close>

lemma double_arith:
  "Double a + Double b = Double (binary64 (a + b))"
  "Double a - Double b = Double (binary64 (a - b))"
  "Double a * Double b = Double (binary64 (a * b))"
  "Double a / Double b = Double (binary64 (a / b))"
  "Double a < Double b \<longleftrightarrow> a < b"
  "Double a \<le> Double b \<longleftrightarrow> a \<le> b"
  by (simp_all add: plus_double_def minus_double_def times_double_def divide_double_def
      less_double_def less_eq_double_def)

lemmas double_eval = zero_double_def double_arith parseFloat_def parseFloat_or_0_def

text \<open>The doubles of 0.1, 0.2 and 0.3, and the sums 0.1 + 0.2 and (0.1 + 0.2) + 0.3.\<close>

lemma binary64_tenth: "binary64 (1 / 10) = 3602879701896397 / 36028797018963968"
  by (simp add: binary64_eval)

lemma binary64_fifth: "binary64 (1 / 5) = 3602879701896397 / 18014398509481984"
  by (simp add: binary64_eval)

lemma binary64_three_tenths: "binary64 (3 / 10) = 5404319552844595 / 18014398509481984"
  by (simp add: binary64_eval)

lemma binary64_tenth_plus_fifth:
  "binary64 (3602879701896397 / 36028797018963968 + 3602879701896397 / 18014398509481984)
     = 1351079888211149 / 4503599627370496"
  by (simp add: binary64_eval)

lemma binary64_plus_three_tenths:
  "binary64 (1351079888211149 / 4503599627370496 + 5404319552844595 / 18014398509481984)
     = 1351079888211149 / 2251799813685248"
  by (simp add: binary64_eval)

lemma zero_minus_zero [simp]: "(0::double) - 0 = 0"
  by (simp add: zero_double_def minus_double_def binary64_def)

lemma js_sum_Nil [simp]: "js_sum [] = 0"
  by (simp add: js_sum_def)

section \<open>What the grouping loop computes\<close>

lemma obj_get_obj_set:
  "obj_get (obj_set k v ob) k' = (if k' = k then Some v else obj_get ob k')"
  by (induction ob) (auto simp: obj_get_def)

lemma obj_get_accumulate:
  "obj_get (accumulate k a ob) k' =
     (if k' = k then Some (obj_total ob k + a) else obj_get ob k')"
  by (auto simp: accumulate_def obj_total_def obj_get_obj_set split: option.splits)

lemma obj_total_accumulate:
  "obj_total (accumulate k a ob) k' =
     (if k' = k then obj_total ob k + a else obj_total ob k')"
  by (simp add: obj_total_def obj_get_accumulate)

lemma obj_total_foldl:
  "obj_total (foldl (\<lambda>m tx. accumulate (tx_category_id tx) (parseFloat (tx_amount tx)) m)
       ob txs) k =
     foldl (+) (obj_total ob k) (amounts (filter (\<lambda>t. tx_category_id t = k) txs))"
  by (induction txs arbitrary: ob) (auto simp: obj_total_accumulate amounts_def)

lemma select_store [simp]:
  "select_transactions (store cats txs r) p = Some (filter p txs)"
  "select_categories (store cats txs r) q = Some (filter q cats)"
  by (simp_all add: store_def select_transactions_def select_categories_def)

section \<open>Budget status\<close>

lemma budget_entry_computed:
  "budget_entry (foldl (\<lambda>m tx. accumulate (tx_category_id tx) (parseFloat (tx_amount tx)) m) []
       (filter (\<lambda>t. tx_type t = ''expense'' \<and> in_period m y (tx_date t)) txs)) cat
   = computed_budget_entry txs m y cat"
proof -
  have f: "filter (\<lambda>t. tx_category_id t = cat_id cat)
             (filter (\<lambda>t. tx_type t = ''expense'' \<and> in_period m y (tx_date t)) txs)
           = filter (\<lambda>t. tx_type t = ''expense'' \<and> tx_category_id t = cat_id cat \<and>
               in_period m y (tx_date t)) txs"
    by (induction txs) auto
  have s: "(case obj_get ob k of None \<Rightarrow> 0 | Some v \<Rightarrow> if v = 0 then 0 else v) = obj_total ob k"
    for ob k by (simp add: obj_total_def split: option.splits)
  have z: "min 0 (Double 100) = 0"
    by (simp add: min_def less_eq_double_def zero_double_def)
  show ?thesis
    unfolding budget_entry_def computed_budget_entry_def s obj_total_foldl f
    by (simp add: obj_total_def obj_get_def Let_def min.commute js_sum_def z)
qed

lemma getBudgetStatus_store:
  "getBudgetStatus (store cats txs r) m y
   = Inr (map (computed_budget_entry txs m y) (filter (\<lambda>c. cat_type c = ''expense'') cats))"
  by (simp add: getBudgetStatus_def budget_entry_computed)

lemmas period_eval = in_period_def startDate_def endDate_def endMonth_def endYear_def
  date_le_def

text \<open>
  C1, with \<open>spent\<close> read as the exact sum of the amounts, does not hold of the code.
  Two expenses of 0.10 and 0.20 in a category with a limit of 0.30: the code returns a
  \<open>spent\<close> of 0.30000000000000004, which is not the sum 0.30 of the amounts, and
  reports the category as over budget, although 0.10 + 0.20 does not exceed 0.30.
\<close>

theorem budgetStatus_exact_sum_counterexample:
  "getBudgetStatus
     (store [snacks]
        [tx ''t1'' ''expense'' (1 / 10) ''c1'' (Date 2025 6 10),
         tx ''t2'' ''expense'' (2 / 10) ''c1'' (Date 2025 6 11)] False) 6 2025
   = Inr [\<lparr> bs_category_id = ''c1'', bs_category_name = ''Snacks'',
            bs_budget_limit = Double (5404319552844595 / 18014398509481984),
            spent = Double (1351079888211149 / 4503599627370496),
            remaining = Double 0, percentage = Double 100, over_budget = True,
            bs_color = Some ''#E07A5F'' \<rparr>]
   \<and> (1351079888211149 / 4503599627370496 :: rat) \<noteq> 1 / 10 + 2 / 10
   \<and> \<not> (1 / 10 + 2 / 10 :: rat) > 3 / 10"
  by (simp add: getBudgetStatus_store computed_budget_entry_def js_sum_def amounts_def
      period_eval snacks_def tx_def double_eval binary64_eval max_def min_def)

text \<open>
  C1, as the code has it. For every category list, transaction list, month and year, on
  a store that answers the two requests, \<^verbatim>\<open>getBudgetStatus\<close> returns one entry per
  category of type \<^verbatim>\<open>expense\<close>, in the order of the categories, and no other entry,
  whatever the budget limits are. In the entry of a category, \<open>spent\<close> is the amounts of
  the transactions of type \<^verbatim>\<open>expense\<close> with that category id and a date in the Period,
  added in the order of the rows in double arithmetic from 0 (0 when there is none);
  \<open>remaining\<close> is \<open>max 0 (budget_limit - spent)\<close>, \<open>percentage\<close> is
  \<open>min 100 (spent / budget_limit * 100)\<close> when the limit is positive and 0 otherwise,
  both computed in double arithmetic; and \<open>over_budget\<close> holds exactly when the limit
  is positive and that \<open>spent\<close> exceeds it.
\<close>

theorem budgetStatus_entries:
  "getBudgetStatus (store cats txs r) m y
   = Inr (map (computed_budget_entry txs m y) (filter (\<lambda>c. cat_type c = ''expense'') cats))"
  by (rule getBudgetStatus_store)

text \<open>
  Scenario A of the specification: a limit of 100 and one expense of 150 in June 2025.
\<close>

theorem budgetStatus_entries_witness:
  "getBudgetStatus
     (store [food] [tx ''t1'' ''expense'' 150 ''c1'' (Date 2025 6 10)] False) 6 2025
   = Inr [\<lparr> bs_category_id = ''c1'', bs_category_name = ''Food'',
            bs_budget_limit = Double 100, spent = Double 150, remaining = Double 0,
            percentage = Double 100, over_budget = True,
            bs_color = Some ''#E07A5F'' \<rparr>]"
  using budgetStatus_entries [of "[food]" "[tx ''t1'' ''expense'' 150 ''c1'' (Date 2025 6 10)]"
      False 6 2025]
  by (simp add: computed_budget_entry_def js_sum_def amounts_def period_eval food_def tx_def
      double_eval binary64_eval max_def min_def)

section \<open>The keys of the grouping objects\<close>

lemma keys_obj_set:
  "map fst (obj_set k v ob) = (if k \<in> fst ` set ob then map fst ob else map fst ob @ [k])"
  by (induction ob) auto

lemma key_set_obj_set: "fst ` set (obj_set k v ob) = insert k (fst ` set ob)"
  by (induction ob) auto

lemma obj_get_None: "obj_get ob k = None \<longleftrightarrow> k \<notin> fst ` set ob"
  by (simp add: obj_get_def map_of_eq_None_iff)

lemma keys_accumulate:
  "map fst (accumulate k a ob) = (if k \<in> fst ` set ob then map fst ob else map fst ob @ [k])"
proof (cases "obj_get ob k")
  case None
  then show ?thesis
    using obj_get_None [of ob k] by (simp add: accumulate_def keys_obj_set key_set_obj_set)
next
  case (Some v)
  then have "k \<in> fst ` set ob"
    using obj_get_None [of ob k] by auto
  with Some show ?thesis
    by (simp add: accumulate_def keys_obj_set key_set_obj_set)
qed

lemma keys_foldl_set:
  "fst ` set (foldl (\<lambda>m tx. accumulate (tx_category_id tx) (parseFloat (tx_amount tx)) m)
       ob txs)
     = fst ` set ob \<union> tx_category_id ` set txs"
proof (induction txs arbitrary: ob)
  case Nil
  then show ?case by simp
next
  case (Cons t txs)
  have "fst ` set (accumulate (tx_category_id t) (parseFloat (tx_amount t)) ob)
          = insert (tx_category_id t) (fst ` set ob)"
    by (auto simp: accumulate_def key_set_obj_set split: option.splits)
  with Cons show ?case by simp
qed

lemma keys_foldl_distinct:
  "distinct (map fst ob) \<Longrightarrow>
   distinct (map fst
     (foldl (\<lambda>m tx. accumulate (tx_category_id tx) (parseFloat (tx_amount tx)) m) ob txs))"
proof (induction txs arbitrary: ob)
  case Nil
  then show ?case by simp
next
  case (Cons t txs)
  have "distinct (map fst (accumulate (tx_category_id t) (parseFloat (tx_amount t)) ob))"
    using Cons.prems by (simp add: keys_accumulate)
  then show ?case using Cons.IH by simp
qed

lemma entry_total:
  assumes "distinct (map fst ob)" and "e \<in> set ob"
  shows "snd e = obj_total ob (fst e)"
proof -
  have "map_of ob (fst e) = Some (snd e)"
    using assms by (cases e) simp
  then show ?thesis by (simp add: obj_total_def obj_get_def)
qed

lemma keys_catMap_aux:
  "fst ` set (foldl (\<lambda>m cat. obj_set (cat_id cat) cat m) ob cats) = fst ` set ob \<union> cat_id ` set cats"
proof (induction cats arbitrary: ob)
  case Nil
  then show ?case by simp
next
  case (Cons c cats)
  have "fst ` set (obj_set (cat_id c) c ob) = insert (cat_id c) (fst ` set ob)"
    by (rule key_set_obj_set)
  with Cons show ?case by simp
qed

lemma catMap_unresolved:
  "k \<notin> cat_id ` set cats \<Longrightarrow> obj_get (catMap_of cats) k = None"
  by (simp add: obj_get_None catMap_of_def keys_catMap_aux)

section \<open>Monthly summary\<close>

lemmas summary_eval = getMonthlySummary_def tally_def accumulate_def obj_get_def catMap_of_def
  breakdown_entry_of_def

lemma totalIncome_foldl:
  "totalIncome (foldl tally s txs) =
     foldl (+) (totalIncome s) (amounts (filter (\<lambda>t. tx_type t = ''income'') txs))"
  by (induction txs arbitrary: s) (auto simp: tally_def Let_def amounts_def)

lemma totalInvestments_foldl:
  "totalInvestments (foldl tally s txs) =
     foldl (+) (totalInvestments s) (amounts (filter (\<lambda>t. tx_type t = ''investment'') txs))"
  by (induction txs arbitrary: s) (auto simp: tally_def Let_def amounts_def)

lemma totalExpenses_foldl:
  "totalExpenses (foldl tally s txs) =
     foldl (+) (totalExpenses s) (amounts
        (filter (\<lambda>t. tx_type t \<noteq> ''income'' \<and> tx_type t \<noteq> ''investment'') txs))"
  by (induction txs arbitrary: s) (auto simp: tally_def Let_def amounts_def)

lemma categoryTotals_foldl:
  "categoryTotals (foldl tally s txs) =
     foldl (\<lambda>m tx. accumulate (tx_category_id tx) (parseFloat (tx_amount tx)) m)
       (categoryTotals s) txs"
  by (induction txs arbitrary: s) (auto simp: tally_def Let_def)

text \<open>
  C2. For every transaction list, category list, month and year, the summary that
  \<^verbatim>\<open>getMonthlySummary\<close> returns has \<open>balance = total_income - total_expenses\<close>, and the
  investments do not contribute to the balance: the summary of the same store without
  its transactions of type \<^verbatim>\<open>investment\<close> has the same balance.
\<close>

theorem monthlySummary_balance:
  "\<exists>s s'. getMonthlySummary (store cats txs r) m y = Inr s
     \<and> balance s = total_income s - total_expenses s
     \<and> getMonthlySummary (store cats (filter (\<lambda>t. tx_type t \<noteq> ''investment'') txs) r) m y = Inr s'
     \<and> balance s' = balance s"
proof -
  have a: "filter (\<lambda>x. tx_type x \<noteq> ''investment'' \<and> in_period m y (tx_date x) \<and>
              tx_type x = ''income'') txs
         = filter (\<lambda>x. in_period m y (tx_date x) \<and> tx_type x = ''income'') txs"
    by (rule filter_cong) auto
  have b: "filter (\<lambda>x. tx_type x \<noteq> ''investment'' \<and> in_period m y (tx_date x) \<and>
              tx_type x \<noteq> ''income'' \<and> tx_type x \<noteq> ''investment'') txs
         = filter (\<lambda>x. in_period m y (tx_date x) \<and> tx_type x \<noteq> ''income'' \<and>
              tx_type x \<noteq> ''investment'') txs"
    by (rule filter_cong) auto
  show ?thesis
    by (simp add: getMonthlySummary_def Let_def totalIncome_foldl totalExpenses_foldl a b)
qed

text \<open>
  An income of 1000, an expense of 400 and an investment of 200 in June 2025: the
  balance is 600 with the investment and without it.
\<close>

theorem monthlySummary_balance_witness:
  "\<exists>s s'. getMonthlySummary
          (store []
             [tx ''t1'' ''income'' 1000 ''c1'' (Date 2025 6 1),
              tx ''t2'' ''expense'' 400 ''c2'' (Date 2025 6 2),
              tx ''t3'' ''investment'' 200 ''c3'' (Date 2025 6 3)] False) 6 2025 = Inr s
     \<and> getMonthlySummary
          (store []
             [tx ''t1'' ''income'' 1000 ''c1'' (Date 2025 6 1),
              tx ''t2'' ''expense'' 400 ''c2'' (Date 2025 6 2)] False) 6 2025 = Inr s'
     \<and> balance s = Double 600 \<and> total_investments s = Double 200
     \<and> balance s' = Double 600 \<and> total_investments s' = Double 0"
  using monthlySummary_balance [of "[]"
      "[tx ''t1'' ''income'' 1000 ''c1'' (Date 2025 6 1),
        tx ''t2'' ''expense'' 400 ''c2'' (Date 2025 6 2),
        tx ''t3'' ''investment'' 200 ''c3'' (Date 2025 6 3)]" False 6 2025]
  by (simp add: summary_eval period_eval tx_def double_eval binary64_eval)

lemma monthly_totals_store:
  "\<exists>s. getMonthlySummary (store cats txs r) m y = Inr s
     \<and> total_income s = js_sum (amounts
          (filter (\<lambda>t. in_period m y (tx_date t) \<and> tx_type t = ''income'') txs))
     \<and> total_investments s = js_sum (amounts
          (filter (\<lambda>t. in_period m y (tx_date t) \<and> tx_type t = ''investment'') txs))
     \<and> total_expenses s = js_sum (amounts
          (filter (\<lambda>t. in_period m y (tx_date t) \<and> tx_type t \<noteq> ''income''
                       \<and> tx_type t \<noteq> ''investment'') txs))"
  by (simp add: getMonthlySummary_def Let_def totalIncome_foldl totalInvestments_foldl
      totalExpenses_foldl js_sum_def)

text \<open>
  C3. In the summary of a month, every transaction of the Period contributes its amount
  to exactly one of the three totals, by its type: \<open>total_income\<close> is made of the
  amounts of the transactions of the Period of type \<^verbatim>\<open>income\<close>, \<open>total_investments\<close> of
  those of type \<^verbatim>\<open>investment\<close>, and \<open>total_expenses\<close> of those of all other
  transactions of the Period, whatever their type is. The three classes are disjoint
  and cover the Period, and a transaction outside the Period is in none of the three.
  Each total is the amounts of its class as the code adds them: in the order of the
  rows, in double arithmetic, from 0.
\<close>

theorem monthlySummary_partition:
  "\<exists>s. getMonthlySummary (store cats txs r) m y = Inr s
     \<and> total_income s = js_sum (amounts
          (filter (\<lambda>t. in_period m y (tx_date t) \<and> tx_type t = ''income'') txs))
     \<and> total_investments s = js_sum (amounts
          (filter (\<lambda>t. in_period m y (tx_date t) \<and> tx_type t = ''investment'') txs))
     \<and> total_expenses s = js_sum (amounts
          (filter (\<lambda>t. in_period m y (tx_date t) \<and> tx_type t \<noteq> ''income''
                       \<and> tx_type t \<noteq> ''investment'') txs))"
  by (rule monthly_totals_store)

text \<open>
  Scenario B of the specification: an income of 1000, an expense of 400 and an
  investment of 200 in June 2025.
\<close>

theorem monthlySummary_partition_witness:
  "\<exists>s. getMonthlySummary
          (store []
             [tx ''t1'' ''income'' 1000 ''c1'' (Date 2025 6 1),
              tx ''t2'' ''expense'' 400 ''c2'' (Date 2025 6 2),
              tx ''t3'' ''investment'' 200 ''c3'' (Date 2025 6 3)] False) 6 2025 = Inr s
     \<and> total_income s = Double 1000 \<and> total_expenses s = Double 400
     \<and> total_investments s = Double 200 \<and> balance s = Double 600"
  using monthlySummary_partition [of "[]"
      "[tx ''t1'' ''income'' 1000 ''c1'' (Date 2025 6 1),
        tx ''t2'' ''expense'' 400 ''c2'' (Date 2025 6 2),
        tx ''t3'' ''investment'' 200 ''c3'' (Date 2025 6 3)]" False 6 2025]
  by (simp add: summary_eval period_eval tx_def js_sum_def amounts_def double_eval
      binary64_eval)

section \<open>The category breakdown\<close>

lemma breakdown_entry_fields [simp]:
  "be_category_id (breakdown_entry_of cm e) = fst e"
  "total (breakdown_entry_of cm e) = snd e"
  by (simp_all add: breakdown_entry_of_def Let_def)

lemma breakdown_entry_unknown:
  "obj_get cm (fst e) = None \<Longrightarrow>
   breakdown_entry_of cm e =
     \<lparr> be_category_id = fst e, category_name = ''Unknown'', be_type = ''expense'',
       total = snd e, be_budget_limit = 0, be_color = ''#3D405B'' \<rparr>"
  by (simp add: breakdown_entry_of_def Let_def parseFloat_or_0_def)

lemma getMonthlySummary_error:
  "getMonthlySummary sb m y = Inl e \<Longrightarrow> e = TypeError"
  by (auto simp: getMonthlySummary_def Let_def split: option.splits)

lemma filter_filter_period:
  "filter (\<lambda>t. tx_category_id t = k) (filter (\<lambda>t. in_period m y (tx_date t)) txs)
   = filter (\<lambda>t. in_period m y (tx_date t) \<and> tx_category_id t = k) txs"
  by (induction txs) auto

lemma monthly_breakdown_store:
  "\<exists>s. getMonthlySummary (store cats txs r) m y = Inr s
        \<and> distinct (map be_category_id (category_breakdown s))
        \<and> set (map be_category_id (category_breakdown s))
            = tx_category_id ` {t \<in> set txs. in_period m y (tx_date t)}
        \<and> (\<forall>e \<in> set (category_breakdown s).
              total e = category_total txs m y (be_category_id e)
              \<and> (be_category_id e \<notin> cat_id ` set cats \<longrightarrow>
                   category_name e = ''Unknown'' \<and> be_type e = ''expense''
                   \<and> be_budget_limit e = 0 \<and> be_color e = ''#3D405B''))"
proof -
  define ptxs where "ptxs = filter (\<lambda>t. in_period m y (tx_date t)) txs"
  define ob where
    "ob = foldl (\<lambda>m tx. accumulate (tx_category_id tx) (parseFloat (tx_amount tx)) m) [] ptxs"
  define s0 where
    "s0 = \<lparr> totalIncome = 0, totalExpenses = 0, totalInvestments = 0, categoryTotals = [] \<rparr>"
  define bd where "bd = map (breakdown_entry_of (catMap_of cats)) ob"
  have ct: "categoryTotals (foldl tally s0 ptxs) = ob"
    by (simp add: categoryTotals_foldl ob_def s0_def)
  have ret: "\<exists>s. getMonthlySummary (store cats txs r) m y = Inr s \<and> category_breakdown s = bd"
    using ct by (simp add: getMonthlySummary_def Let_def bd_def ptxs_def s0_def)
  have d: "distinct (map fst ob)"
    unfolding ob_def by (rule keys_foldl_distinct) simp
  have keys: "map be_category_id bd = map fst ob"
    by (simp add: bd_def)
  have k: "set (map fst ob) = tx_category_id ` {t \<in> set txs. in_period m y (tx_date t)}"
    using keys_foldl_set [of "[]" ptxs] by (simp add: ob_def ptxs_def)
  have tot: "total e = category_total txs m y (be_category_id e)
             \<and> (be_category_id e \<notin> cat_id ` set cats \<longrightarrow>
                  category_name e = ''Unknown'' \<and> be_type e = ''expense''
                  \<and> be_budget_limit e = 0 \<and> be_color e = ''#3D405B'')"
    if "e \<in> set bd" for e
  proof -
    from that obtain p where p: "p \<in> set ob" and e: "e = breakdown_entry_of (catMap_of cats) p"
      by (auto simp: bd_def)
    have "snd p = obj_total ob (fst p)"
      using d p by (rule entry_total)
    also have "\<dots> = foldl (+) (obj_total [] (fst p))
        (amounts (filter (\<lambda>t. tx_category_id t = fst p) ptxs))"
      unfolding ob_def by (rule obj_total_foldl)
    also have "\<dots> = category_total txs m y (fst p)"
      by (simp add: ptxs_def filter_filter_period category_total_def obj_total_def obj_get_def
          js_sum_def)
    finally have "total e = category_total txs m y (be_category_id e)"
      by (simp add: e)
    moreover have "category_name e = ''Unknown'' \<and> be_type e = ''expense''
                  \<and> be_budget_limit e = 0 \<and> be_color e = ''#3D405B''"
      if "be_category_id e \<notin> cat_id ` set cats"
      using that breakdown_entry_unknown [of "catMap_of cats" p] catMap_unresolved [of "fst p" cats]
      by (simp add: e)
    ultimately show ?thesis by blast
  qed
  from ret obtain s where s: "getMonthlySummary (store cats txs r) m y = Inr s"
    and b: "category_breakdown s = bd" by blast
  have dk: "distinct (map be_category_id bd)"
    using d keys by simp
  have sk: "set (map be_category_id bd)
              = tx_category_id ` {t \<in> set txs. in_period m y (tx_date t)}"
    using k keys by simp
  show ?thesis
  proof (rule exI [of _ s], intro conjI)
    show "getMonthlySummary (store cats txs r) m y = Inr s" by (rule s)
    show "distinct (map be_category_id (category_breakdown s))"
      using dk by (simp add: b)
    show "set (map be_category_id (category_breakdown s))
            = tx_category_id ` {t \<in> set txs. in_period m y (tx_date t)}"
      using sk by (simp only: b)
    show "\<forall>e \<in> set (category_breakdown s).
            total e = category_total txs m y (be_category_id e)
            \<and> (be_category_id e \<notin> cat_id ` set cats \<longrightarrow>
                 category_name e = ''Unknown'' \<and> be_type e = ''expense''
                 \<and> be_budget_limit e = 0 \<and> be_color e = ''#3D405B'')"
      using tot by (simp only: b) blast
  qed
qed

text \<open>
  C5, with \<open>total\<close> read as the exact sum of the amounts, does not hold of the code.
  Three expenses of 0.10, 0.20 and 0.30 of category \<^verbatim>\<open>c1\<close> in June 2025: the
  \<open>total\<close> of the entry of \<^verbatim>\<open>c1\<close> in the breakdown is 0.6000000000000001, which is
  not the sum 0.60 of the three amounts.
\<close>

theorem monthlySummary_breakdown_exact_sum_counterexample:
  "getMonthlySummary
     (store [food]
        [tx ''t1'' ''expense'' (1 / 10) ''c1'' (Date 2025 6 10),
         tx ''t2'' ''expense'' (2 / 10) ''c1'' (Date 2025 6 11),
         tx ''t3'' ''expense'' (3 / 10) ''c1'' (Date 2025 6 12)] False) 6 2025
   = Inr \<lparr> ms_month = 6, ms_year = 2025, total_income = Double 0,
           total_expenses = Double (1351079888211149 / 2251799813685248),
           total_investments = Double 0,
           balance = Double (- (1351079888211149 / 2251799813685248)),
           category_breakdown =
             [\<lparr> be_category_id = ''c1'', category_name = ''Food'', be_type = ''expense'',
                total = Double (1351079888211149 / 2251799813685248),
                be_budget_limit = Double 100, be_color = ''#E07A5F'' \<rparr>] \<rparr>
   \<and> (1351079888211149 / 2251799813685248 :: rat) \<noteq> 1 / 10 + 2 / 10 + 3 / 10"
  by (simp add: summary_eval period_eval store_def select_transactions_def
      select_categories_def food_def tx_def double_eval binary64_eval)

text \<open>
  C5, as the code has it. \<^verbatim>\<open>getMonthlySummary\<close> throws none of the errors of the store
  accessors, on any store and for any month and year: the only thing it can throw is
  the TypeError of a request that was not answered. On a store that answers, it returns
  a summary whose breakdown has one entry per category id that occurs among the
  transactions of the Period (the ids of the entries are distinct, and they are exactly
  those ids); the \<open>total\<close> of an entry is the amounts of the Period's transactions with
  that id, added in the order of the rows in double arithmetic from 0; and an entry
  whose id is the id of no category carries the name \<^verbatim>\<open>Unknown\<close>, the type
  \<^verbatim>\<open>expense\<close>, the budget limit 0 and the colour \<^verbatim>\<open>#3D405B\<close>.
\<close>

theorem monthlySummary_breakdown:
  "getMonthlySummary sb m y \<notin> {Inl HasDependents, Inl CategoryNotFound, Inl RequestError}
   \<and> (\<exists>s. getMonthlySummary (store cats txs r) m y = Inr s
        \<and> distinct (map be_category_id (category_breakdown s))
        \<and> set (map be_category_id (category_breakdown s))
            = tx_category_id ` {t \<in> set txs. in_period m y (tx_date t)}
        \<and> (\<forall>e \<in> set (category_breakdown s).
              total e = category_total txs m y (be_category_id e)
              \<and> (be_category_id e \<notin> cat_id ` set cats \<longrightarrow>
                   category_name e = ''Unknown'' \<and> be_type e = ''expense''
                   \<and> be_budget_limit e = 0 \<and> be_color e = ''#3D405B'')))"
  using getMonthlySummary_error [of sb m y] monthly_breakdown_store [of cats txs r m y]
  by auto

text \<open>
  A category \<^verbatim>\<open>c9\<close> that was deleted after a transaction was written: its entry is the
  placeholder. The transaction of July is not in the breakdown of June.
\<close>

theorem monthlySummary_breakdown_witness:
  "\<exists>s. getMonthlySummary
          (store [food]
             [tx ''t1'' ''expense'' 40 ''c1'' (Date 2025 6 10),
              tx ''t2'' ''expense'' 25 ''c9'' (Date 2025 6 11),
              tx ''t3'' ''expense'' 60 ''c1'' (Date 2025 7 1)] False) 6 2025 = Inr s
     \<and> category_breakdown s =
         [\<lparr> be_category_id = ''c1'', category_name = ''Food'', be_type = ''expense'',
            total = Double 40, be_budget_limit = Double 100, be_color = ''#E07A5F'' \<rparr>,
          \<lparr> be_category_id = ''c9'', category_name = ''Unknown'', be_type = ''expense'',
            total = Double 25, be_budget_limit = Double 0, be_color = ''#3D405B'' \<rparr>]"
  using monthlySummary_breakdown [of "store [] [] False" 6 2025 "[food]"
      "[tx ''t1'' ''expense'' 40 ''c1'' (Date 2025 6 10),
        tx ''t2'' ''expense'' 25 ''c9'' (Date 2025 6 11),
        tx ''t3'' ''expense'' 60 ''c1'' (Date 2025 7 1)]" False]
  by (simp add: summary_eval period_eval store_def select_transactions_def
      select_categories_def food_def tx_def category_total_def js_sum_def amounts_def
      double_eval binary64_eval)

section \<open>Yearly summary\<close>

lemma months_1_12: "[1..12] = [1, 2, 3, 4, 5, 6, 7, 8, 9, 10, 11, 12 :: int]"
  by code_simp

lemma month_tally_foldl:
  "mt_income (foldl month_tally s txs) =
     foldl (+) (mt_income s) (amounts (filter (\<lambda>t. tx_type t = ''income'') txs))"
  "mt_investments (foldl month_tally s txs) =
     foldl (+) (mt_investments s) (amounts (filter (\<lambda>t. tx_type t = ''investment'') txs))"
  "mt_expenses (foldl month_tally s txs) =
     foldl (+) (mt_expenses s) (amounts
        (filter (\<lambda>t. tx_type t \<noteq> ''income'' \<and> tx_type t \<noteq> ''investment'') txs))"
  by (induction txs arbitrary: s, auto simp: month_tally_def Let_def amounts_def)+

lemma filter_period_type:
  "filter q (filter (\<lambda>t. in_period m y (tx_date t)) txs)
     = filter (\<lambda>t. in_period m y (tx_date t) \<and> q t) txs"
  by (induction txs) auto

lemma months_loop_store:
  "months_loop (store cats txs r) y m acc = Inr (acc @ map (computed_month_entry txs y) [m..12])"
proof (induction "nat (13 - m)" arbitrary: m acc)
  case 0
  then have "\<not> m \<le> 12" by simp
  then show ?case
    by (subst months_loop.simps) simp
next
  case (Suc n)
  then have le: "m \<le> 12" and n: "n = nat (13 - (m + 1))" by simp_all
  have up: "[m..12] = m # [m + 1..12]"
    using le by (simp add: upto_rec1)
  show ?case
    apply (subst months_loop.simps)
    apply (simp add: le Suc.hyps(1) [OF n] up Let_def month_tally_foldl filter_period_type
        computed_month_entry_def js_sum_def)
    done
qed

lemma foldl_plus_map:
  "foldl (+) a (map f es) = foldl (\<lambda>sum e. sum + f e) a es" for a :: double
  by (induction es arbitrary: a) auto

lemma js_sum_map: "js_sum (map f es) = foldl (\<lambda>sum e. sum + f e) 0 es"
  by (simp add: js_sum_def foldl_plus_map)

lemma getYearlySummary_store:
  "getYearlySummary (store cats txs r) y =
     Inr \<lparr> ys_year = y,
           monthly_data = map (computed_month_entry txs y) [1..12],
           yearly_total_income = js_sum (map income (map (computed_month_entry txs y) [1..12])),
           yearly_total_expenses =
             js_sum (map expenses (map (computed_month_entry txs y) [1..12])),
           yearly_total_investments =
             js_sum (map investments (map (computed_month_entry txs y) [1..12])) \<rparr>"
proof -
  have inv: "(\<lambda>sum e. sum + (if investments e = 0 then 0 else investments e))
               = (\<lambda>sum e. sum + investments e)"
    by (intro ext) simp
  show ?thesis
    unfolding getYearlySummary_def months_loop_store inv js_sum_map by simp
qed

lemma computed_month_entry_empty:
  "filter (\<lambda>t. in_period m y (tx_date t)) txs = [] \<Longrightarrow>
   computed_month_entry txs y m =
     \<lparr> month = m, income = 0, expenses = 0, investments = 0, month_balance = 0 \<rparr>"
proof -
  assume e: "filter (\<lambda>t. in_period m y (tx_date t)) txs = []"
  have "filter (\<lambda>t. in_period m y (tx_date t) \<and> q t) txs = []" for q
    using e by (auto simp: filter_empty_conv)
  then show ?thesis
    by (simp add: computed_month_entry_def amounts_def)
qed

lemma month_computed_month_entry [simp]: "month (computed_month_entry txs y m) = m"
  by (simp add: computed_month_entry_def Let_def)

text \<open>
  C4, with the yearly totals read as exact sums, does not hold of the code. Incomes of
  0.10 in January, 0.20 in February and 0.30 in March 2025: the monthly incomes are the
  doubles of 0.1, 0.2 and 0.3, and \<open>total_income\<close> is 0.6000000000000001, which is
  not the sum of the twelve monthly incomes.
\<close>

theorem yearlySummary_exact_sum_counterexample:
  "getYearlySummary
     (store []
        [tx ''t1'' ''income'' (1 / 10) ''c1'' (Date 2025 1 15),
         tx ''t2'' ''income'' (2 / 10) ''c1'' (Date 2025 2 15),
         tx ''t3'' ''income'' (3 / 10) ''c1'' (Date 2025 3 15)] False) 2025
   = Inr \<lparr> ys_year = 2025,
       monthly_data =
         [\<lparr> month = 1, income = Double (3602879701896397 / 36028797018963968),
            expenses = Double 0, investments = Double 0,
            month_balance = Double (3602879701896397 / 36028797018963968) \<rparr>,
          \<lparr> month = 2, income = Double (3602879701896397 / 18014398509481984),
            expenses = Double 0, investments = Double 0,
            month_balance = Double (3602879701896397 / 18014398509481984) \<rparr>,
          \<lparr> month = 3, income = Double (5404319552844595 / 18014398509481984),
            expenses = Double 0, investments = Double 0,
            month_balance = Double (5404319552844595 / 18014398509481984) \<rparr>,
          \<lparr> month = 4, income = Double 0, expenses = Double 0, investments = Double 0,
            month_balance = Double 0 \<rparr>,
          \<lparr> month = 5, income = Double 0, expenses = Double 0, investments = Double 0,
            month_balance = Double 0 \<rparr>,
          \<lparr> month = 6, income = Double 0, expenses = Double 0, investments = Double 0,
            month_balance = Double 0 \<rparr>,
          \<lparr> month = 7, income = Double 0, expenses = Double 0, investments = Double 0,
            month_balance = Double 0 \<rparr>,
          \<lparr> month = 8, income = Double 0, expenses = Double 0, investments = Double 0,
            month_balance = Double 0 \<rparr>,
          \<lparr> month = 9, income = Double 0, expenses = Double 0, investments = Double 0,
            month_balance = Double 0 \<rparr>,
          \<lparr> month = 10, income = Double 0, expenses = Double 0, investments = Double 0,
            month_balance = Double 0 \<rparr>,
          \<lparr> month = 11, income = Double 0, expenses = Double 0, investments = Double 0,
            month_balance = Double 0 \<rparr>,
          \<lparr> month = 12, income = Double 0, expenses = Double 0, investments = Double 0,
            month_balance = Double 0 \<rparr>],
       yearly_total_income = Double (1351079888211149 / 2251799813685248),
       yearly_total_expenses = Double 0,
       yearly_total_investments = Double 0 \<rparr>
   \<and> (1351079888211149 / 2251799813685248 :: rat)
       \<noteq> 3602879701896397 / 36028797018963968 + 3602879701896397 / 18014398509481984
           + 5404319552844595 / 18014398509481984 + 0 + 0 + 0 + 0 + 0 + 0 + 0 + 0 + 0"
  by (simp add: getYearlySummary_store months_1_12 computed_month_entry_def js_sum_def
      amounts_def period_eval tx_def double_eval binary64_eval)

text \<open>
  C4, as the code has it. For every transaction list and year, \<^verbatim>\<open>getYearlySummary\<close>
  returns a \<open>monthly_data\<close> of exactly 12 entries, for the months 1 to 12 in this order,
  each the partition of its month's Period; the entry of a month without transactions
  is the all-zero entry, and it is there; and each of the three yearly totals is its
  field of the 12 entries added from January to December in double arithmetic from 0.
\<close>

theorem yearlySummary_months:
  "\<exists>s. getYearlySummary (store cats txs r) y = Inr s
     \<and> length (monthly_data s) = 12
     \<and> map month (monthly_data s) = [1, 2, 3, 4, 5, 6, 7, 8, 9, 10, 11, 12]
     \<and> monthly_data s = map (computed_month_entry txs y) [1, 2, 3, 4, 5, 6, 7, 8, 9, 10, 11, 12]
     \<and> (\<forall>e \<in> set (monthly_data s).
           filter (\<lambda>t. in_period (month e) y (tx_date t)) txs = [] \<longrightarrow>
           e = \<lparr> month = month e, income = 0, expenses = 0, investments = 0,
                 month_balance = 0 \<rparr>)
     \<and> yearly_total_income s = js_sum (map income (monthly_data s))
     \<and> yearly_total_expenses s = js_sum (map expenses (monthly_data s))
     \<and> yearly_total_investments s = js_sum (map investments (monthly_data s))"
proof -
  define md where "md = map (computed_month_entry txs y) [1, 2, 3, 4, 5, 6, 7, 8, 9, 10, 11, 12]"
  define s where
    "s = \<lparr> ys_year = y, monthly_data = md,
           yearly_total_income = js_sum (map income md),
           yearly_total_expenses = js_sum (map expenses md),
           yearly_total_investments = js_sum (map investments md) \<rparr>"
  have ret: "getYearlySummary (store cats txs r) y = Inr s"
    unfolding getYearlySummary_store months_1_12 s_def md_def ..
  have zero: "e = \<lparr> month = month e, income = 0, expenses = 0, investments = 0,
                    month_balance = 0 \<rparr>"
    if "e \<in> set md" and "filter (\<lambda>t. in_period (month e) y (tx_date t)) txs = []" for e
  proof -
    from that(1) obtain m where "e = computed_month_entry txs y m"
      by (auto simp: md_def)
    with that(2) show ?thesis
      using computed_month_entry_empty [of m y txs] by simp
  qed
  have md: "monthly_data s = md" by (simp add: s_def)
  show ?thesis
  proof (rule exI [of _ s], intro conjI)
    show "getYearlySummary (store cats txs r) y = Inr s" by (rule ret)
    show "length (monthly_data s) = 12" by (simp add: md md_def)
    show "map month (monthly_data s) = [1, 2, 3, 4, 5, 6, 7, 8, 9, 10, 11, 12]"
      by (simp add: md md_def)
    show "monthly_data s = map (computed_month_entry txs y) [1, 2, 3, 4, 5, 6, 7, 8, 9, 10, 11, 12]"
      by (simp add: md md_def)
    show "\<forall>e \<in> set (monthly_data s).
           filter (\<lambda>t. in_period (month e) y (tx_date t)) txs = [] \<longrightarrow>
           e = \<lparr> month = month e, income = 0, expenses = 0, investments = 0,
                 month_balance = 0 \<rparr>"
      using zero unfolding md by blast
    show "yearly_total_income s = js_sum (map income (monthly_data s))"
      by (simp add: s_def)
    show "yearly_total_expenses s = js_sum (map expenses (monthly_data s))"
      by (simp add: s_def)
    show "yearly_total_investments s = js_sum (map investments (monthly_data s))"
      by (simp add: s_def)
  qed
qed

text \<open>A year whose only transaction is an income in June.\<close>

theorem yearlySummary_months_witness:
  "\<exists>s. getYearlySummary (store [] [tx ''t1'' ''income'' 1000 ''c1'' (Date 2025 6 1)] False) 2025
          = Inr s
     \<and> monthly_data s =
         [\<lparr> month = 1, income = Double 0, expenses = Double 0, investments = Double 0,
            month_balance = Double 0 \<rparr>,
          \<lparr> month = 2, income = Double 0, expenses = Double 0, investments = Double 0,
            month_balance = Double 0 \<rparr>,
          \<lparr> month = 3, income = Double 0, expenses = Double 0, investments = Double 0,
            month_balance = Double 0 \<rparr>,
          \<lparr> month = 4, income = Double 0, expenses = Double 0, investments = Double 0,
            month_balance = Double 0 \<rparr>,
          \<lparr> month = 5, income = Double 0, expenses = Double 0, investments = Double 0,
            month_balance = Double 0 \<rparr>,
          \<lparr> month = 6, income = Double 1000, expenses = Double 0, investments = Double 0,
            month_balance = Double 1000 \<rparr>,
          \<lparr> month = 7, income = Double 0, expenses = Double 0, investments = Double 0,
            month_balance = Double 0 \<rparr>,
          \<lparr> month = 8, income = Double 0, expenses = Double 0, investments = Double 0,
            month_balance = Double 0 \<rparr>,
          \<lparr> month = 9, income = Double 0, expenses = Double 0, investments = Double 0,
            month_balance = Double 0 \<rparr>,
          \<lparr> month = 10, income = Double 0, expenses = Double 0, investments = Double 0,
            month_balance = Double 0 \<rparr>,
          \<lparr> month = 11, income = Double 0, expenses = Double 0, investments = Double 0,
            month_balance = Double 0 \<rparr>,
          \<lparr> month = 12, income = Double 0, expenses = Double 0, investments = Double 0,
            month_balance = Double 0 \<rparr>]
     \<and> yearly_total_income s = Double 1000 \<and> yearly_total_expenses s = Double 0
     \<and> yearly_total_investments s = Double 0"
  using yearlySummary_months [of "[]" "[tx ''t1'' ''income'' 1000 ''c1'' (Date 2025 6 1)]" False 2025]
  by (auto simp: computed_month_entry_def js_sum_def amounts_def period_eval tx_def
      double_eval binary64_eval)

section \<open>The list of transactions\<close>

lemma date_le_total: "\<not> date_le a b \<Longrightarrow> date_le b a"
  by (cases a; cases b) (auto simp: date_le_def)

lemma date_le_trans: "date_le a b \<Longrightarrow> date_le b c \<Longrightarrow> date_le a c"
  by (cases a; cases b; cases c) (auto simp: date_le_def)

lemma set_insert_desc: "set (insert_desc t us) = insert t (set us)"
  by (induction us) auto

lemma mset_insert_desc: "mset (insert_desc t us) = add_mset t (mset us)"
  by (induction us) auto

lemma length_insert_desc: "length (insert_desc t us) = Suc (length us)"
  by (induction us) auto

lemma by_date_desc_insert: "by_date_desc us \<Longrightarrow> by_date_desc (insert_desc t us)"
proof (induction us)
  case Nil
  then show ?case by (simp add: by_date_desc_def)
next
  case (Cons u us)
  show ?case
  proof (cases "date_le (tx_date u) (tx_date t)")
    case True
    have "date_le (tx_date v) (tx_date t)" if "v \<in> set us" for v
      using Cons.prems that True date_le_trans by (auto simp: by_date_desc_def)
    with True Cons.prems show ?thesis
      by (auto simp: by_date_desc_def)
  next
    case False
    then have "date_le (tx_date t) (tx_date u)" by (rule date_le_total)
    with False Cons show ?thesis
      by (auto simp: by_date_desc_def set_insert_desc)
  qed
qed

lemma by_date_desc_order: "by_date_desc (order_date_desc rows)"
  unfolding order_date_desc_def
  by (induction rows) (simp_all add: by_date_desc_insert, simp add: by_date_desc_def)

lemma set_order_date_desc: "set (order_date_desc rows) = set rows"
  unfolding order_date_desc_def by (induction rows) (simp_all add: set_insert_desc)

lemma mset_order_date_desc: "mset (order_date_desc rows) = mset rows"
  unfolding order_date_desc_def by (induction rows) (simp_all add: mset_insert_desc)

lemma length_order_date_desc: "length (order_date_desc rows) = length rows"
  unfolding order_date_desc_def by (induction rows) (simp_all add: length_insert_desc)

lemma by_date_desc_take: "by_date_desc rows \<Longrightarrow> by_date_desc (take n rows)"
  unfolding by_date_desc_def by (rule sorted_wrt_take)

lemma by_date_desc_to_transaction: "by_date_desc rows \<Longrightarrow> by_date_desc (map to_transaction rows)"
  by (simp add: by_date_desc_def sorted_wrt_map to_transaction_def)

lemma getTransactions_Inr:
  assumes "getTransactions sb f = Inr rows"
  shows "rows = map to_transaction (take 1000 (order_date_desc
            (filter (\<lambda>t. period_filter f t \<and> type_filter f t \<and> category_filter f t)
               (transactions sb))))"
  using assms
  by (auto simp: getTransactions_def select_transactions_ordered_def split: if_splits)

lemma in_returned_rows:
  assumes "getTransactions sb f = Inr rows" and "t \<in> set rows"
  obtains u where "u \<in> set (transactions sb)" and "t = to_transaction u"
    and "period_filter f u" and "type_filter f u" and "category_filter f u"
proof -
  have "t \<in> to_transaction ` set (take 1000 (order_date_desc
            (filter (\<lambda>t. period_filter f t \<and> type_filter f t \<and> category_filter f t)
               (transactions sb))))"
    using assms(2) unfolding getTransactions_Inr [OF assms(1)] by simp
  then obtain u where
    "u \<in> set (take 1000 (order_date_desc
            (filter (\<lambda>t. period_filter f t \<and> type_filter f t \<and> category_filter f t)
               (transactions sb))))" and t: "t = to_transaction u"
    by blast
  then have "u \<in> set (filter (\<lambda>t. period_filter f t \<and> type_filter f t \<and> category_filter f t)
               (transactions sb))"
    using set_order_date_desc by (metis in_set_takeD)
  with t that show ?thesis by auto
qed

lemma returned_rows_ordered:
  assumes "getTransactions sb f = Inr rows"
  shows "by_date_desc rows" and "length rows \<le> 1000"
proof -
  show "by_date_desc rows"
    unfolding getTransactions_Inr [OF assms]
    by (intro by_date_desc_to_transaction by_date_desc_take by_date_desc_order)
  show "length rows \<le> 1000"
    unfolding getTransactions_Inr [OF assms] by simp
qed

lemma getTransactions_returns:
  "Select_transactions \<notin> refused sb \<Longrightarrow> \<exists>rows. getTransactions sb f = Inr rows"
  by (simp add: getTransactions_def select_transactions_ordered_def)

lemma period_filter_given:
  "filter_month f = Some m \<Longrightarrow> filter_year f = Some y \<Longrightarrow> m \<noteq> 0 \<Longrightarrow> y \<noteq> 0 \<Longrightarrow>
   period_filter f t \<longleftrightarrow>
     date_le (Date y m 1) (tx_date t)
     \<and> date_less (tx_date t) (if m = 12 then Date (y + 1) 1 1 else Date y (m + 1) 1)"
  by (cases "m = 12")
    (simp_all add: period_filter_def in_period_def startDate_def endDate_def endMonth_def
      endYear_def)

lemmas eval_query_defs = getTransactions_def select_transactions_ordered_def order_date_desc_def
  period_filter_def type_filter_def category_filter_def to_transaction_def by_date_desc_def

text \<open>
  C7. For every filter, on a store that answers, \<^verbatim>\<open>getTransactions\<close> returns a list;
  the list it returns is ordered by date descending and has at most 1000 rows: it is
  the first 1000 rows of the rows of the table that pass the filters, put in an order
  by date descending. When the filter gives a month and a year (values that pass the
  test \<^verbatim>\<open>month && year\<close>, which 0 does not), the rows that pass are those of the given
  type and category whose date is from the first day of that month on and before the
  first day of the next month, which for month 12 of year \<open>y\<close> is January 1 of year
  \<open>y + 1\<close>: every such row is in the list, up to the cap, and no other row is.
\<close>

theorem getTransactions_ordered_capped:
  "(Select_transactions \<notin> refused sb \<longrightarrow> (\<exists>rows. getTransactions sb f = Inr rows))
   \<and> (\<forall>rows. getTransactions sb f = Inr rows \<longrightarrow>
        by_date_desc rows \<and> length rows \<le> 1000
        \<and> (\<exists>ms. rows = map to_transaction (take 1000 ms) \<and> by_date_desc ms
              \<and> mset ms = mset (filter
                   (\<lambda>t. period_filter f t \<and> type_filter f t \<and> category_filter f t)
                   (transactions sb)))
        \<and> (\<forall>m y. filter_month f = Some m \<and> filter_year f = Some y \<and> m \<noteq> 0 \<and> y \<noteq> 0 \<longrightarrow>
             (\<forall>t \<in> set rows.
                date_le (Date y m 1) (tx_date t)
                \<and> date_less (tx_date t)
                    (if m = 12 then Date (y + 1) 1 1 else Date y (m + 1) 1))
             \<and> (\<exists>ms. rows = map to_transaction (take 1000 ms) \<and> by_date_desc ms
                   \<and> mset ms = mset (filter
                        (\<lambda>t. date_le (Date y m 1) (tx_date t)
                             \<and> date_less (tx_date t)
                                 (if m = 12 then Date (y + 1) 1 1 else Date y (m + 1) 1)
                             \<and> type_filter f t \<and> category_filter f t)
                        (transactions sb)))))"
proof (intro conjI allI impI)
  assume "Select_transactions \<notin> refused sb"
  then show "\<exists>rows. getTransactions sb f = Inr rows"
    by (rule getTransactions_returns)
next
  fix rows
  assume r: "getTransactions sb f = Inr rows"
  define ms where
    "ms = order_date_desc
       (filter (\<lambda>t. period_filter f t \<and> type_filter f t \<and> category_filter f t)
          (transactions sb))"
  have rows: "rows = map to_transaction (take 1000 ms)"
    unfolding ms_def by (rule getTransactions_Inr [OF r])
  have sorted: "by_date_desc ms"
    unfolding ms_def by (rule by_date_desc_order)
  have all: "mset ms = mset (filter
       (\<lambda>t. period_filter f t \<and> type_filter f t \<and> category_filter f t) (transactions sb))"
    unfolding ms_def by (rule mset_order_date_desc)
  show "by_date_desc rows" and "length rows \<le> 1000"
    using r by (rule returned_rows_ordered)+
  show "\<exists>ms. rows = map to_transaction (take 1000 ms) \<and> by_date_desc ms
          \<and> mset ms = mset (filter
               (\<lambda>t. period_filter f t \<and> type_filter f t \<and> category_filter f t)
               (transactions sb))"
    using rows sorted all by blast
  fix m y
  assume my: "filter_month f = Some m \<and> filter_year f = Some y \<and> m \<noteq> 0 \<and> y \<noteq> 0"
  have p: "period_filter f t \<longleftrightarrow>
       date_le (Date y m 1) (tx_date t)
       \<and> date_less (tx_date t) (if m = 12 then Date (y + 1) 1 1 else Date y (m + 1) 1)"
    for t :: "('a, 'd) transaction"
    using my by (intro period_filter_given) simp_all
  show "\<forall>t \<in> set rows.
          date_le (Date y m 1) (tx_date t)
          \<and> date_less (tx_date t) (if m = 12 then Date (y + 1) 1 1 else Date y (m + 1) 1)"
  proof
    fix t assume "t \<in> set rows"
    with r obtain u where u: "t = to_transaction u" "period_filter f u"
      by (rule in_returned_rows)
    have "tx_date t = tx_date u"
      by (simp add: u(1) to_transaction_def)
    with u(2) show "date_le (Date y m 1) (tx_date t)
          \<and> date_less (tx_date t) (if m = 12 then Date (y + 1) 1 1 else Date y (m + 1) 1)"
      by (simp only: p)
  qed
  have "filter (\<lambda>t. period_filter f t \<and> type_filter f t \<and> category_filter f t)
          (transactions sb)
        = filter (\<lambda>t. date_le (Date y m 1) (tx_date t)
                     \<and> date_less (tx_date t)
                         (if m = 12 then Date (y + 1) 1 1 else Date y (m + 1) 1)
                     \<and> type_filter f t \<and> category_filter f t)
            (transactions sb)"
    by (rule filter_cong) (simp_all only: p conj_assoc)
  with rows sorted all
  show "\<exists>ms. rows = map to_transaction (take 1000 ms) \<and> by_date_desc ms
          \<and> mset ms = mset (filter
               (\<lambda>t. date_le (Date y m 1) (tx_date t)
                    \<and> date_less (tx_date t)
                        (if m = 12 then Date (y + 1) 1 1 else Date y (m + 1) 1)
                    \<and> type_filter f t \<and> category_filter f t)
               (transactions sb))"
    by metis
qed

text \<open>
  The transactions of December 2025 out of a table that also holds the last day of
  November and the first day of January 2026: the first and the last day of December
  are returned, latest first, and nothing else.
\<close>

theorem getTransactions_ordered_capped_witness:
  "getTransactions
     (store [] [tx ''t1'' ''expense'' 40 ''c1'' (Date 2025 12 1),
                tx ''t2'' ''income'' 900 ''c2'' (Date 2025 12 31),
                tx ''t3'' ''expense'' 60 ''c1'' (Date 2026 1 1),
                tx ''t4'' ''expense'' 15 ''c1'' (Date 2025 11 30)] False)
     \<lparr> filter_month = Some 12, filter_year = Some 2025, filter_type = None,
       filter_category_id = None \<rparr>
   = Inr (map to_transaction [tx ''t2'' ''income'' 900 ''c2'' (Date 2025 12 31),
                              tx ''t1'' ''expense'' 40 ''c1'' (Date 2025 12 1)])
   \<and> by_date_desc (map to_transaction [tx ''t2'' ''income'' 900 ''c2'' (Date 2025 12 31),
                                       tx ''t1'' ''expense'' 40 ''c1'' (Date 2025 12 1)])"
proof -
  have h: "getTransactions
     (store [] [tx ''t1'' ''expense'' 40 ''c1'' (Date 2025 12 1),
                tx ''t2'' ''income'' 900 ''c2'' (Date 2025 12 31),
                tx ''t3'' ''expense'' 60 ''c1'' (Date 2026 1 1),
                tx ''t4'' ''expense'' 15 ''c1'' (Date 2025 11 30)] False)
     \<lparr> filter_month = Some 12, filter_year = Some 2025, filter_type = None,
       filter_category_id = None \<rparr>
   = Inr (map to_transaction [tx ''t2'' ''income'' 900 ''c2'' (Date 2025 12 31),
                              tx ''t1'' ''expense'' 40 ''c1'' (Date 2025 12 1)])"
    by (simp add: eval_query_defs period_eval store_def tx_def)
  from getTransactions_ordered_capped
    [of "store [] [tx ''t1'' ''expense'' 40 ''c1'' (Date 2025 12 1),
                tx ''t2'' ''income'' 900 ''c2'' (Date 2025 12 31),
                tx ''t3'' ''expense'' 60 ''c1'' (Date 2026 1 1),
                tx ''t4'' ''expense'' 15 ''c1'' (Date 2025 11 30)] False"
        "\<lparr> filter_month = Some 12, filter_year = Some 2025, filter_type = None,
           filter_category_id = None \<rparr>"] h
  show ?thesis by blast
qed

text \<open>
  C8. When the filter gives only one of month and year (or neither), no date restriction
  is applied: the call returns what the call without month and year returns. The rows
  it returns are still ordered by date descending, at most 1000, and they pass the
  filters on the type and on the category id.
\<close>

theorem getTransactions_half_period:
  "filter_month f = None \<or> filter_year f = None \<Longrightarrow>
     getTransactions sb f = getTransactions sb (f\<lparr>filter_month := None, filter_year := None\<rparr>)
     \<and> (\<forall>rows. getTransactions sb f = Inr rows \<longrightarrow>
           by_date_desc rows \<and> length rows \<le> 1000
           \<and> (\<forall>t \<in> set rows. type_filter f t \<and> category_filter f t))"
proof (intro conjI allI impI ballI)
  assume a: "filter_month f = None \<or> filter_year f = None"
  then have p: "period_filter f = (\<lambda>t :: (rat, string option) transaction. True)"
    by (auto simp: period_filter_def fun_eq_iff split: option.splits)
  have q: "period_filter (f\<lparr>filter_month := None, filter_year := None\<rparr>)
             = (\<lambda>t :: (rat, string option) transaction. True)"
    by (simp add: period_filter_def fun_eq_iff)
  show "getTransactions sb f = getTransactions sb (f\<lparr>filter_month := None, filter_year := None\<rparr>)"
    by (simp add: getTransactions_def p q type_filter_def category_filter_def)
  fix rows
  assume r: "getTransactions sb f = Inr rows"
  show "by_date_desc rows" and "length rows \<le> 1000"
    using r by (rule returned_rows_ordered)+
  fix t assume "t \<in> set rows"
  with r obtain u where u: "t = to_transaction u" "type_filter f u" "category_filter f u"
    by (rule in_returned_rows)
  from u show "type_filter f t"
    by (simp add: type_filter_def to_transaction_def split: option.splits)
  from u show "category_filter f t"
    by (simp add: category_filter_def to_transaction_def split: option.splits)
qed

text \<open>
  A month without a year: the expense of July is returned with the expense of June,
  as it is without a month.
\<close>

theorem getTransactions_half_period_witness:
  "getTransactions
     (store [] [tx ''t1'' ''expense'' 40 ''c1'' (Date 2025 6 10),
                tx ''t2'' ''income'' 900 ''c2'' (Date 2025 6 20),
                tx ''t3'' ''expense'' 60 ''c1'' (Date 2025 7 1)] False)
     \<lparr> filter_month = Some 6, filter_year = None, filter_type = Some ''expense'',
       filter_category_id = None \<rparr>
   = Inr (map to_transaction [tx ''t3'' ''expense'' 60 ''c1'' (Date 2025 7 1),
                              tx ''t1'' ''expense'' 40 ''c1'' (Date 2025 6 10)])
   \<and> getTransactions
     (store [] [tx ''t1'' ''expense'' 40 ''c1'' (Date 2025 6 10),
                tx ''t2'' ''income'' 900 ''c2'' (Date 2025 6 20),
                tx ''t3'' ''expense'' 60 ''c1'' (Date 2025 7 1)] False)
     \<lparr> filter_month = None, filter_year = None, filter_type = Some ''expense'',
       filter_category_id = None \<rparr>
   = Inr (map to_transaction [tx ''t3'' ''expense'' 60 ''c1'' (Date 2025 7 1),
                              tx ''t1'' ''expense'' 40 ''c1'' (Date 2025 6 10)])"
  using getTransactions_half_period [of
      "\<lparr> filter_month = Some 6, filter_year = None, filter_type = Some ''expense'',
         filter_category_id = None \<rparr>"
      "store [] [tx ''t1'' ''expense'' 40 ''c1'' (Date 2025 6 10),
                tx ''t2'' ''income'' 900 ''c2'' (Date 2025 6 20),
                tx ''t3'' ''expense'' 60 ''c1'' (Date 2025 7 1)] False"]
  by (simp add: eval_query_defs period_eval store_def tx_def)

section \<open>Deleting a category\<close>

lemma count_transactions_store:
  "count_transactions (store cats txs r) cid
     = Some (length (filter (\<lambda>t. tx_category_id t = cid) txs))"
  by (simp add: count_transactions_def store_def)

lemma delete_categories_store:
  "delete_categories (store cats txs r) cid =
     (if r \<and> filter (\<lambda>c. cat_id c = cid) cats \<noteq> []
           \<and> filter (\<lambda>t. tx_category_id t = cid) txs \<noteq> []
      then (True, store cats txs r)
      else (False, store (filter (\<lambda>c. cat_id c \<noteq> cid) cats) txs r))"
  by (simp add: delete_categories_def store_def)

text \<open>
  C6. For every category id, on a store that answers the requests, \<^verbatim>\<open>deleteCategory\<close>
  throws the error of the dependent check whenever a transaction references the id, and
  then the store is as it was: the categories and the transactions are unchanged. When
  no transaction references the id, the call returns and the category is deleted (the
  transactions are unchanged). The decision is the count of the referencing transactions,
  taken before the delete request.
\<close>

theorem deleteCategory_guard:
  "deleteCategory (store cats txs r) cid =
     (if cid \<in> tx_category_id ` set txs
      then (Inl HasDependents, store cats txs r)
      else (Inr (), store (filter (\<lambda>c. cat_id c \<noteq> cid) cats) txs r))"
proof (cases "cid \<in> tx_category_id ` set txs")
  case True
  then have "filter (\<lambda>t. tx_category_id t = cid) txs \<noteq> []"
    by (auto simp: filter_empty_conv)
  with True show ?thesis
    by (simp add: deleteCategory_def count_transactions_store)
next
  case False
  then have "filter (\<lambda>t. tx_category_id t = cid) txs = []"
    by (auto simp: filter_empty_conv)
  with False show ?thesis
    by (simp add: deleteCategory_def count_transactions_store delete_categories_store)
qed

text \<open>
  Scenario C of the specification: category \<^verbatim>\<open>c1\<close> cannot be deleted while a
  transaction has it; with the transaction in another category, it is deleted.
\<close>

theorem deleteCategory_guard_witness:
  "deleteCategory (store [food] [tx ''t1'' ''expense'' 40 ''c1'' (Date 2025 6 10)] False) ''c1''
     = (Inl HasDependents, store [food] [tx ''t1'' ''expense'' 40 ''c1'' (Date 2025 6 10)] False)
   \<and> deleteCategory (store [food] [tx ''t1'' ''expense'' 40 ''c2'' (Date 2025 6 10)] False) ''c1''
     = (Inr (), store [] [tx ''t1'' ''expense'' 40 ''c2'' (Date 2025 6 10)] False)"
  using deleteCategory_guard [of "[food]" "[tx ''t1'' ''expense'' 40 ''c1'' (Date 2025 6 10)]" False "''c1''"]
    deleteCategory_guard [of "[food]" "[tx ''t1'' ''expense'' 40 ''c2'' (Date 2025 6 10)]" False "''c1''"]
  by (simp add: food_def tx_def)

text \<open>
  C10. The guard of \<^verbatim>\<open>deleteCategory\<close> throws exactly when the count request returns a
  count greater than zero. When the request is not answered, the count is \<^verbatim>\<open>null\<close>,
  the guard does not fire, and the result of \<^verbatim>\<open>deleteCategory\<close> is that of the delete
  request, which is sent whether or not transactions reference the category: on a store
  that answers the delete request and does not enforce the foreign key, the category is
  deleted.
\<close>

theorem deleteCategory_count_missing:
  "(fst (deleteCategory sb cid) = Inl HasDependents
      \<longleftrightarrow> (\<exists>n. count_transactions sb cid = Some n \<and> n > 0))
   \<and> (Count_transactions \<in> refused sb \<longrightarrow>
        count_transactions sb cid = None
        \<and> deleteCategory sb cid =
            (case delete_categories sb cid of
               (error, sb') \<Rightarrow> (if error then Inl RequestError else Inr (), sb'))
        \<and> (Delete_categories \<notin> refused sb \<and> \<not> on_delete_restrict sb \<longrightarrow>
             deleteCategory sb cid =
               (Inr (), sb\<lparr>categories := filter (\<lambda>c. cat_id c \<noteq> cid) (categories sb)\<rparr>)))"
  by (auto simp: deleteCategory_def count_transactions_def delete_categories_def Let_def
      split: prod.splits if_splits)

text \<open>
  The count request is not answered: category \<^verbatim>\<open>c1\<close> is deleted although a transaction
  references it.
\<close>

theorem deleteCategory_count_missing_witness:
  "deleteCategory
     \<lparr> categories = [food],
       transactions = [tx ''t1'' ''expense'' 40 ''c1'' (Date 2025 6 10)],
       refused = {Count_transactions}, on_delete_restrict = False \<rparr> ''c1''
   = (Inr (),
      \<lparr> categories = [],
        transactions = [tx ''t1'' ''expense'' 40 ''c1'' (Date 2025 6 10)],
        refused = {Count_transactions}, on_delete_restrict = False \<rparr>)"
  using deleteCategory_count_missing [of
      "\<lparr> categories = [food],
         transactions = [tx ''t1'' ''expense'' 40 ''c1'' (Date 2025 6 10)],
         refused = {Count_transactions}, on_delete_restrict = False \<rparr>" "''c1''"]
  by (simp add: deleteCategory_def count_transactions_def delete_categories_def food_def)

section \<open>Unrecognised transaction types\<close>

lemma computed_budget_entry_ignores:
  "tx_type t \<noteq> ''expense'' \<Longrightarrow>
   computed_budget_entry (txs1 @ t # txs2) m y = computed_budget_entry (txs1 @ txs2) m y"
  by (simp add: computed_budget_entry_def fun_eq_iff)

lemma js_sum_snoc: "js_sum (ns @ [n]) = js_sum ns + n"
  by (simp add: js_sum_def)

text \<open>
  C9. A transaction of the Period whose type is none of \<^verbatim>\<open>income\<close>, \<^verbatim>\<open>investment\<close> and
  \<^verbatim>\<open>expense\<close> is counted in the \<open>total_expenses\<close> of the monthly summary and in the
  breakdown total of its category: its amount is one of the numbers the code adds up
  for them, at the place of its row (so when it is the last row, the totals are those
  without it plus its amount). It leaves the budget status as it is without the
  transaction, because \<^verbatim>\<open>getBudgetStatus\<close> reads only the transactions whose type is
  \<^verbatim>\<open>expense\<close>. So \<open>total_expenses\<close> can exceed the sum of \<open>spent\<close> over the budget
  status: it does for one transaction of type \<^verbatim>\<open>refund\<close> in an expense category.
\<close>

theorem unrecognised_type_is_expense_only_in_summary:
  "(in_period m y (tx_date t) \<and> tx_type t \<notin> {''income'', ''investment'', ''expense''} \<longrightarrow>
      (\<exists>s s'. getMonthlySummary (store cats (txs1 @ txs2) r) m y = Inr s
         \<and> getMonthlySummary (store cats (txs1 @ t # txs2) r) m y = Inr s'
         \<and> total_expenses s =
             js_sum (amounts (filter (\<lambda>u. in_period m y (tx_date u) \<and> tx_type u \<noteq> ''income''
                                 \<and> tx_type u \<noteq> ''investment'') txs1)
                     @ amounts (filter (\<lambda>u. in_period m y (tx_date u) \<and> tx_type u \<noteq> ''income''
                                 \<and> tx_type u \<noteq> ''investment'') txs2))
         \<and> total_expenses s' =
             js_sum (amounts (filter (\<lambda>u. in_period m y (tx_date u) \<and> tx_type u \<noteq> ''income''
                                 \<and> tx_type u \<noteq> ''investment'') txs1)
                     @ [parseFloat (tx_amount t)]
                     @ amounts (filter (\<lambda>u. in_period m y (tx_date u) \<and> tx_type u \<noteq> ''income''
                                 \<and> tx_type u \<noteq> ''investment'') txs2))
         \<and> (txs2 = [] \<longrightarrow> total_expenses s' = total_expenses s + parseFloat (tx_amount t))
         \<and> (\<exists>e \<in> set (category_breakdown s').
               be_category_id e = tx_category_id t
               \<and> total e =
                   js_sum (amounts (filter (\<lambda>u. in_period m y (tx_date u)
                                       \<and> tx_category_id u = tx_category_id t) txs1)
                           @ [parseFloat (tx_amount t)]
                           @ amounts (filter (\<lambda>u. in_period m y (tx_date u)
                                       \<and> tx_category_id u = tx_category_id t) txs2))))
      \<and> getBudgetStatus (store cats (txs1 @ t # txs2) r) m y
          = getBudgetStatus (store cats (txs1 @ txs2) r) m y)
   \<and> (\<exists>s bs. getMonthlySummary
                 (store [food] [tx ''t1'' ''refund'' 30 ''c1'' (Date 2025 6 5)] False) 6 2025 = Inr s
         \<and> getBudgetStatus
                 (store [food] [tx ''t1'' ''refund'' 30 ''c1'' (Date 2025 6 5)] False) 6 2025 = Inr bs
         \<and> total_expenses s > js_sum (map spent bs))"
proof (intro conjI impI)
  assume a: "in_period m y (tx_date t) \<and> tx_type t \<notin> {''income'', ''investment'', ''expense''}"
  obtain s where s: "getMonthlySummary (store cats (txs1 @ txs2) r) m y = Inr s"
    and es: "total_expenses s = js_sum (amounts
          (filter (\<lambda>u. in_period m y (tx_date u) \<and> tx_type u \<noteq> ''income''
                       \<and> tx_type u \<noteq> ''investment'') (txs1 @ txs2)))"
    using monthly_totals_store [of cats "txs1 @ txs2" r m y] by blast
  obtain s' where s': "getMonthlySummary (store cats (txs1 @ t # txs2) r) m y = Inr s'"
    and keys: "set (map be_category_id (category_breakdown s'))
            = tx_category_id ` {u \<in> set (txs1 @ t # txs2). in_period m y (tx_date u)}"
    and tot: "\<And>e. e \<in> set (category_breakdown s') \<Longrightarrow>
            total e = category_total (txs1 @ t # txs2) m y (be_category_id e)"
    using monthly_breakdown_store [of cats "txs1 @ t # txs2" r m y] by blast
  have es': "total_expenses s' = js_sum (amounts
          (filter (\<lambda>u. in_period m y (tx_date u) \<and> tx_type u \<noteq> ''income''
                       \<and> tx_type u \<noteq> ''investment'') (txs1 @ t # txs2)))"
    using monthly_totals_store [of cats "txs1 @ t # txs2" r m y] s' by auto
  have e1: "total_expenses s =
             js_sum (amounts (filter (\<lambda>u. in_period m y (tx_date u) \<and> tx_type u \<noteq> ''income''
                                 \<and> tx_type u \<noteq> ''investment'') txs1)
                     @ amounts (filter (\<lambda>u. in_period m y (tx_date u) \<and> tx_type u \<noteq> ''income''
                                 \<and> tx_type u \<noteq> ''investment'') txs2))"
    unfolding es by (simp add: amounts_def)
  have e2: "total_expenses s' =
             js_sum (amounts (filter (\<lambda>u. in_period m y (tx_date u) \<and> tx_type u \<noteq> ''income''
                                 \<and> tx_type u \<noteq> ''investment'') txs1)
                     @ [parseFloat (tx_amount t)]
                     @ amounts (filter (\<lambda>u. in_period m y (tx_date u) \<and> tx_type u \<noteq> ''income''
                                 \<and> tx_type u \<noteq> ''investment'') txs2))"
    unfolding es' using a by (simp add: amounts_def)
  have e3: "txs2 = [] \<longrightarrow> total_expenses s' = total_expenses s + parseFloat (tx_amount t)"
    unfolding e1 e2 by (simp add: amounts_def js_sum_snoc)
  have "tx_category_id t \<in> set (map be_category_id (category_breakdown s'))"
    unfolding keys using a by auto
  then obtain e where e: "e \<in> set (category_breakdown s')" "be_category_id e = tx_category_id t"
    by auto
  have e4: "total e =
       js_sum (amounts (filter (\<lambda>u. in_period m y (tx_date u)
                           \<and> tx_category_id u = tx_category_id t) txs1)
               @ [parseFloat (tx_amount t)]
               @ amounts (filter (\<lambda>u. in_period m y (tx_date u)
                           \<and> tx_category_id u = tx_category_id t) txs2))"
    using tot [OF e(1)] a by (simp add: e(2) category_total_def amounts_def)
  from s s' e1 e2 e3 e e4
  show "\<exists>s s'. getMonthlySummary (store cats (txs1 @ txs2) r) m y = Inr s
         \<and> getMonthlySummary (store cats (txs1 @ t # txs2) r) m y = Inr s'
         \<and> total_expenses s =
             js_sum (amounts (filter (\<lambda>u. in_period m y (tx_date u) \<and> tx_type u \<noteq> ''income''
                                 \<and> tx_type u \<noteq> ''investment'') txs1)
                     @ amounts (filter (\<lambda>u. in_period m y (tx_date u) \<and> tx_type u \<noteq> ''income''
                                 \<and> tx_type u \<noteq> ''investment'') txs2))
         \<and> total_expenses s' =
             js_sum (amounts (filter (\<lambda>u. in_period m y (tx_date u) \<and> tx_type u \<noteq> ''income''
                                 \<and> tx_type u \<noteq> ''investment'') txs1)
                     @ [parseFloat (tx_amount t)]
                     @ amounts (filter (\<lambda>u. in_period m y (tx_date u) \<and> tx_type u \<noteq> ''income''
                                 \<and> tx_type u \<noteq> ''investment'') txs2))
         \<and> (txs2 = [] \<longrightarrow> total_expenses s' = total_expenses s + parseFloat (tx_amount t))
         \<and> (\<exists>e \<in> set (category_breakdown s').
               be_category_id e = tx_category_id t
               \<and> total e =
                   js_sum (amounts (filter (\<lambda>u. in_period m y (tx_date u)
                                       \<and> tx_category_id u = tx_category_id t) txs1)
                           @ [parseFloat (tx_amount t)]
                           @ amounts (filter (\<lambda>u. in_period m y (tx_date u)
                                       \<and> tx_category_id u = tx_category_id t) txs2)))"
    by blast
  from a have "tx_type t \<noteq> ''expense''" by simp
  then show "getBudgetStatus (store cats (txs1 @ t # txs2) r) m y
          = getBudgetStatus (store cats (txs1 @ txs2) r) m y"
    by (simp add: getBudgetStatus_store computed_budget_entry_ignores)
next
  show "\<exists>s bs. getMonthlySummary
                 (store [food] [tx ''t1'' ''refund'' 30 ''c1'' (Date 2025 6 5)] False) 6 2025 = Inr s
         \<and> getBudgetStatus
                 (store [food] [tx ''t1'' ''refund'' 30 ''c1'' (Date 2025 6 5)] False) 6 2025 = Inr bs
         \<and> total_expenses s > js_sum (map spent bs)"
    by (simp add: summary_eval getBudgetStatus_def budget_entry_def period_eval
        store_def select_transactions_def select_categories_def food_def tx_def js_sum_def
        double_eval binary64_eval max_def min_def)
qed

text \<open>The transaction of type \<^verbatim>\<open>refund\<close>, added to an empty table.\<close>

theorem unrecognised_type_is_expense_only_in_summary_witness:
  "\<exists>s bs. getMonthlySummary
             (store [food] [tx ''t1'' ''refund'' 30 ''c1'' (Date 2025 6 5)] False) 6 2025 = Inr s
     \<and> getBudgetStatus
             (store [food] [tx ''t1'' ''refund'' 30 ''c1'' (Date 2025 6 5)] False) 6 2025 = Inr bs
     \<and> total_expenses s = Double 30 \<and> map total (category_breakdown s) = [Double 30]
     \<and> map spent bs = [Double 0]
     \<and> in_period 6 2025 (tx_date (tx ''t1'' ''refund'' 30 ''c1'' (Date 2025 6 5)))"
  using unrecognised_type_is_expense_only_in_summary
    [of 6 2025 "tx ''t1'' ''refund'' 30 ''c1'' (Date 2025 6 5)" "[food]" "[]" "[]" False]
  by (simp add: summary_eval getBudgetStatus_def budget_entry_def period_eval
      store_def select_transactions_def select_categories_def food_def tx_def js_sum_def
      amounts_def double_eval binary64_eval max_def min_def)

end
